theory Spec2Isabelle
  imports Complex_Main "HOL-Library.AList"
begin

section \<open>Values and errors\<close>

text \<open>
  A UTC instant is kept by its civil fields (date, hour, minute, second and the
  sub-second part in nanoseconds); two valid instants are equal exactly when their
  fields are. \<open>Null\<close> stands for Python's \<open>None\<close>, pandas' \<open>NaN\<close> and \<open>NaT\<close>
  and SQL's \<open>NULL\<close>.
\<close>

datatype date = Date (d_year: nat) (d_month: nat) (d_day: nat)

datatype timestamp =
  Timestamp (ts_date: date) (ts_hour: nat) (ts_minute: nat) (ts_second: nat) (ts_nano: nat)

datatype cell = Null | Num real | Str string | Ts timestamp | Dt date

text \<open>
  The quality tasks raise \<open>ValueError\<close> with a formatted message; the message is kept
  as the data it is formatted from.
\<close>

datatype detail =
    Message string
  | CompletenessFailure "(date option \<times> nat \<times> nat) list"
  | NullsDetected nat
  | RangeCheckFailures "(string \<times> nat) list"

text \<open>
  \<open>NotModelled\<close> marks an input on which a library does something this development
  does not describe (a conversion between kinds of values, a date format outside
  ISO 8601); no statement below draws a conclusion from it. \<open>OutOfBoundsDatetime\<close>
  is pandas' error (a \<open>ValueError\<close> by inheritance) for an instant that does not fit
  a 64-bit count of nanoseconds.
\<close>

datatype error =
    KeyError "string list"
  | ValueError detail
  | OutOfBoundsDatetime
  | AttributeError
  | CatalogError
  | BinderError
  | ConstraintError
  | InvalidInputError
  | NotModelled

section \<open>Results that may raise\<close>

definition and_then :: "error + 'a \<Rightarrow> ('a \<Rightarrow> error + 'b) \<Rightarrow> error + 'b" where
  "and_then m f = (case m of Inl e \<Rightarrow> Inl e | Inr x \<Rightarrow> f x)"

fun traverse :: "('a \<Rightarrow> error + 'b) \<Rightarrow> 'a list \<Rightarrow> error + 'b list" where
  "traverse f [] = Inr []"
| "traverse f (x # xs) = and_then (f x) (\<lambda>y. and_then (traverse f xs) (\<lambda>ys. Inr (y # ys)))"

section \<open>pandas\<close>

subsection \<open>Frames\<close>

text \<open>
  A frame is its row count and its columns, in order, each a list of that many cells.
\<close>

record dataframe =
  index_len :: nat
  cols :: "(string \<times> cell list) list"

text \<open>\<open>pd.DataFrame(data)\<close> for a dict of lists.\<close>

definition DataFrame :: "(string \<times> cell list) list \<Rightarrow> error + dataframe" where
  "DataFrame data =
     (case data of
        [] \<Rightarrow> Inr \<lparr>index_len = 0, cols = []\<rparr>
      | (k, v) # rest \<Rightarrow>
          if list_all (\<lambda>(k', v'). length v' = length v) rest
          then Inr \<lparr>index_len = length v, cols = data\<rparr>
          else Inl (ValueError (Message ''All arrays must be of the same length'')))"

text \<open>\<open>df[c]\<close>, \<open>df[c] = values\<close>, \<open>df[c] = scalar\<close> and \<open>df[[c1, c2, ...]]\<close>.\<close>

definition getitem :: "dataframe \<Rightarrow> string \<Rightarrow> error + cell list" where
  "getitem df c = (case map_of (cols df) c of None \<Rightarrow> Inl (KeyError [c]) | Some v \<Rightarrow> Inr v)"

definition setitem :: "dataframe \<Rightarrow> string \<Rightarrow> cell list \<Rightarrow> dataframe" where
  "setitem df c v = df\<lparr>cols := AList.update c v (cols df)\<rparr>"

definition setitem_scalar :: "dataframe \<Rightarrow> string \<Rightarrow> cell \<Rightarrow> dataframe" where
  "setitem_scalar df c x = setitem df c (replicate (index_len df) x)"

definition getitems :: "dataframe \<Rightarrow> string list \<Rightarrow> error + dataframe" where
  "getitems df cs =
     (let missing = filter (\<lambda>c. map_of (cols df) c = None) cs
      in if missing \<noteq> [] then Inl (KeyError missing)
         else Inr \<lparr>index_len = index_len df,
                   cols = map (\<lambda>c. (c, case map_of (cols df) c of Some v \<Rightarrow> v | None \<Rightarrow> [])) cs\<rparr>)"

text \<open>The rows of a frame, each in the order of the frame's columns.\<close>

definition frame_rows :: "dataframe \<Rightarrow> cell list list" where
  "frame_rows df = map (\<lambda>i. map (\<lambda>(c, v). v ! i) (cols df)) [0..<index_len df]"

text \<open>
  \<open>duplicated(keep="first")\<close>: a position is marked when its value was seen at an
  earlier position. \<open>boolean_mask\<close> is indexing by a list of booleans.
\<close>

fun duplicated_from :: "'a list \<Rightarrow> 'a list \<Rightarrow> bool list" where
  "duplicated_from seen [] = []"
| "duplicated_from seen (x # xs) = (x \<in> set seen) # duplicated_from (x # seen) xs"

definition duplicated :: "'a list \<Rightarrow> bool list" where
  "duplicated xs = duplicated_from [] xs"

definition boolean_mask :: "bool list \<Rightarrow> 'a list \<Rightarrow> 'a list" where
  "boolean_mask m v = map snd (filter fst (zip m v))"

definition drop_duplicates :: "dataframe \<Rightarrow> string list \<Rightarrow> error + dataframe" where
  "drop_duplicates df by =
     and_then (getitems df by) (\<lambda>keys.
       let keep = map Not (duplicated (frame_rows keys))
       in Inr \<lparr>index_len = length (filter id keep),
               cols = map (\<lambda>(c, v). (c, boolean_mask keep v)) (cols df)\<rparr>)"

subsection \<open>Dates and times\<close>

definition digit :: "char \<Rightarrow> nat option" where
  "digit c = (let n = (of_char c :: nat) in if 48 \<le> n \<and> n \<le> 57 then Some (n - 48) else None)"

fun decimal_from :: "nat \<Rightarrow> string \<Rightarrow> nat option" where
  "decimal_from acc [] = Some acc"
| "decimal_from acc (c # cs) =
     (case digit c of None \<Rightarrow> None | Some d \<Rightarrow> decimal_from (10 * acc + d) cs)"

definition decimal :: "string \<Rightarrow> nat option" where
  "decimal s = (if s = [] then None else decimal_from 0 s)"

definition is_leap :: "nat \<Rightarrow> bool" where
  "is_leap y = (y mod 4 = 0 \<and> (y mod 100 \<noteq> 0 \<or> y mod 400 = 0))"

definition days_in_month :: "nat \<Rightarrow> nat \<Rightarrow> nat" where
  "days_in_month y m =
     (if m = 2 then (if is_leap y then 29 else 28)
      else if m = 4 \<or> m = 6 \<or> m = 9 \<or> m = 11 then 30 else 31)"

definition valid_date :: "date \<Rightarrow> bool" where
  "valid_date d =
     (1 \<le> d_year d \<and> d_year d \<le> 9999 \<and> 1 \<le> d_month d \<and> d_month d \<le> 12 \<and>
      1 \<le> d_day d \<and> d_day d \<le> days_in_month (d_year d) (d_month d))"

definition valid_timestamp :: "timestamp \<Rightarrow> bool" where
  "valid_timestamp t =
     (valid_date (ts_date t) \<and> ts_hour t < 24 \<and> ts_minute t < 60 \<and> ts_second t < 60 \<and>
      ts_nano t < 1000000000)"

text \<open>
  \<open>valid_date\<close> is the range of Python's \<open>datetime.date\<close>. A pandas timestamp is a
  64-bit count of nanoseconds since 1970: it lies between \<open>Timestamp.min\<close> and
  \<open>Timestamp.max\<close>, compared field by field.
\<close>

definition ts_fields :: "timestamp \<Rightarrow> nat list" where
  "ts_fields t =
     [d_year (ts_date t), d_month (ts_date t), d_day (ts_date t), ts_hour t, ts_minute t,
      ts_second t, ts_nano t]"

fun fields_le :: "nat list \<Rightarrow> nat list \<Rightarrow> bool" where
  "fields_le (x # xs) (y # ys) = (x < y \<or> (x = y \<and> fields_le xs ys))"
| "fields_le _ _ = True"

definition Timestamp_min :: timestamp where
  "Timestamp_min = Timestamp (Date 1677 9 21) 0 12 43 145224193"

definition Timestamp_max :: timestamp where
  "Timestamp_max = Timestamp (Date 2262 4 11) 23 47 16 854775807"

definition in_bounds :: "timestamp \<Rightarrow> bool" where
  "in_bounds t =
     (fields_le (ts_fields Timestamp_min) (ts_fields t) \<and>
      fields_le (ts_fields t) (ts_fields Timestamp_max))"

definition within_bounds :: "timestamp \<Rightarrow> error + cell" where
  "within_bounds t = (if in_bounds t then Inr (Ts t) else Inl OutOfBoundsDatetime)"

text \<open>
  The ISO 8601 forms of this pipeline: \<open>YYYY-MM-DD\<close>, \<open>YYYY-MM-DDTHH:MM\<close> (the API's)
  and \<open>YYYY-MM-DDTHH:MM:SS\<close>, the last two with or without a final \<open>Z\<close>. A string of
  one of these shapes with a field out of range is a \<open>ValueError\<close>; a string of another
  shape is outside this description of \<open>pd.to_datetime\<close>.
\<close>

definition parse_date :: "string \<Rightarrow> date option option" where
  "parse_date s =
     (if length s = 10 \<and> s ! 4 = CHR ''-'' \<and> s ! 7 = CHR ''-'' then
        (case (decimal (take 4 s), decimal (take 2 (drop 5 s)), decimal (drop 8 s)) of
           (Some y, Some m, Some d) \<Rightarrow>
             Some (if valid_date (Date y m d) then Some (Date y m d) else None)
         | _ \<Rightarrow> None)
      else None)"

definition parse_clock :: "string \<Rightarrow> (nat \<times> nat \<times> nat) option option" where
  "parse_clock s =
     (if length s = 5 \<and> s ! 2 = CHR '':'' then
        (case (decimal (take 2 s), decimal (drop 3 s)) of
           (Some h, Some m) \<Rightarrow> Some (if h < 24 \<and> m < 60 then Some (h, m, 0) else None)
         | _ \<Rightarrow> None)
      else if length s = 8 \<and> s ! 2 = CHR '':'' \<and> s ! 5 = CHR '':'' then
        (case (decimal (take 2 s), decimal (take 2 (drop 3 s)), decimal (drop 6 s)) of
           (Some h, Some m, Some sec) \<Rightarrow>
             Some (if h < 24 \<and> m < 60 \<and> sec < 60 then Some (h, m, sec) else None)
         | _ \<Rightarrow> None)
      else None)"

definition parse_datetime :: "string \<Rightarrow> timestamp option option" where
  "parse_datetime s =
     (if length s = 10 then
        (case parse_date s of
           None \<Rightarrow> None
         | Some None \<Rightarrow> Some None
         | Some (Some d) \<Rightarrow> Some (Some (Timestamp d 0 0 0 0)))
      else if 16 \<le> length s \<and> s ! 10 = CHR ''T'' then
        (let body = (if last s = CHR ''Z'' then butlast s else s) in
         case (parse_date (take 10 body), parse_clock (drop 11 body)) of
           (Some (Some d), Some (Some (h, m, sec))) \<Rightarrow> Some (Some (Timestamp d h m sec 0))
         | (Some _, Some _) \<Rightarrow> Some None
         | _ \<Rightarrow> None)
      else None)"

text \<open>
  \<open>pd.to_datetime\<close> on a column (pandas 2). The texts pandas reads as missing
  are the empty one and its \<open>nat_strings\<close>. The format is guessed once, from the
  first value that is not missing, when that value is text; every other text of the
  column is then parsed with that one format, and a text of another of the forms
  above raises \<open>ValueError\<close>, ISO 8601 though it is (a text of no such form is outside
  this description). A format is given here by the length of the text and its final
  \<open>Z\<close>, which tell the forms above apart. A parsed instant outside the bounds raises
  \<open>OutOfBoundsDatetime\<close>. A column that starts with a timestamp or a date holds no
  text here.
\<close>

definition nat_strings :: "string list" where
  "nat_strings = ['''', ''NaT'', ''nat'', ''NAT'', ''nan'', ''NaN'', ''NAN'']"

fun is_missing :: "cell \<Rightarrow> bool" where
  "is_missing Null = True"
| "is_missing (Str s) = (s \<in> set nat_strings)"
| "is_missing _ = False"

type_synonym layout = "nat \<times> bool"

definition layout_of :: "string \<Rightarrow> layout" where
  "layout_of s = (length s, s \<noteq> [] \<and> last s = CHR ''Z'')"

fun first_text :: "cell list \<Rightarrow> string option" where
  "first_text [] = None"
| "first_text (c # cs) =
     (if is_missing c then first_text cs else case c of Str s \<Rightarrow> Some s | _ \<Rightarrow> None)"

definition guess_format :: "cell list \<Rightarrow> layout option" where
  "guess_format column =
     (case first_text column of
        None \<Rightarrow> None
      | Some s \<Rightarrow> (case parse_datetime s of None \<Rightarrow> None | Some _ \<Rightarrow> Some (layout_of s)))"

fun to_datetime_cell :: "layout option \<Rightarrow> cell \<Rightarrow> error + cell" where
  "to_datetime_cell f Null = Inr Null"
| "to_datetime_cell f (Ts t) = Inr (Ts t)"
| "to_datetime_cell f (Dt d) = within_bounds (Timestamp d 0 0 0 0)"
| "to_datetime_cell f (Str s) =
     (if s \<in> set nat_strings then Inr Null
      else case f of
             None \<Rightarrow> Inl NotModelled
           | Some fmt \<Rightarrow>
               (case parse_datetime s of
                  None \<Rightarrow> Inl NotModelled
                | Some parsed \<Rightarrow>
                    if layout_of s \<noteq> fmt
                    then Inl (ValueError (Message ''time data does not match format''))
                    else (case parsed of
                            None \<Rightarrow> Inl (ValueError (Message ''time data does not match format''))
                          | Some t \<Rightarrow> within_bounds t)))"
| "to_datetime_cell f (Num x) = Inl NotModelled"

definition to_datetime :: "cell list \<Rightarrow> error + cell list" where
  "to_datetime column = traverse (to_datetime_cell (guess_format column)) column"

text \<open>
  The \<open>.dt\<close> accessor needs a column of timestamps (\<open>NaT\<close> among them); \<open>.dt.date\<close>
  and \<open>.dt.strftime("%Y-%m-%dT%H:%M:%SZ")\<close>.
\<close>

fun dt_cell :: "cell \<Rightarrow> error + timestamp option" where
  "dt_cell (Ts t) = Inr (Some t)"
| "dt_cell Null = Inr None"
| "dt_cell _ = Inl AttributeError"

definition dt_date :: "cell list \<Rightarrow> error + cell list" where
  "dt_date column =
     and_then (traverse dt_cell column)
       (\<lambda>ts. Inr (map (\<lambda>t. case t of None \<Rightarrow> Null | Some t' \<Rightarrow> Dt (ts_date t')) ts))"

definition digit_char :: "nat \<Rightarrow> char" where
  "digit_char n = ''0123456789'' ! (n mod 10)"

definition two_digits :: "nat \<Rightarrow> string" where
  "two_digits n = [digit_char (n div 10), digit_char n]"

definition four_digits :: "nat \<Rightarrow> string" where
  "four_digits n =
     [digit_char (n div 1000), digit_char (n div 100), digit_char (n div 10), digit_char n]"

definition isoformat :: "date \<Rightarrow> string" where
  "isoformat d = four_digits (d_year d) @ ''-'' @ two_digits (d_month d) @ ''-'' @ two_digits (d_day d)"

definition strftime :: "timestamp \<Rightarrow> string" where
  "strftime t =
     isoformat (ts_date t) @ ''T'' @ two_digits (ts_hour t) @ '':'' @ two_digits (ts_minute t) @
     '':'' @ two_digits (ts_second t) @ ''Z''"

definition dt_strftime :: "cell list \<Rightarrow> error + cell list" where
  "dt_strftime column =
     and_then (traverse dt_cell column)
       (\<lambda>ts. Inr (map (\<lambda>t. case t of None \<Rightarrow> Null | Some t' \<Rightarrow> Str (strftime t')) ts))"

section \<open>schemas.py\<close>

definition COLUMN_ORDER :: "string list" where
  "COLUMN_ORDER =
     [''time'', ''pm10'', ''pm2_5'', ''uv_index'', ''latitude'', ''longitude'',
      ''timezone'', ''city'', ''date'', ''execution_time'']"

section \<open>utils.py\<close>

subsection \<open>The payload\<close>

text \<open>
  The parsed JSON payload is a dict from keys to values; a value is a scalar or, as
  under \<open>hourly\<close>, a dict of lists (kept in its order, which becomes the order of the
  frame's columns).
\<close>

datatype json = Scalar cell | Columns "(string \<times> cell list) list"

type_synonym payload = "string \<Rightarrow> json option"

definition payload_getitem :: "payload \<Rightarrow> string \<Rightarrow> error + json" where
  "payload_getitem payload k = (case payload k of None \<Rightarrow> Inl (KeyError [k]) | Some v \<Rightarrow> Inr v)"

definition payload_get :: "payload \<Rightarrow> string \<Rightarrow> json" where
  "payload_get payload k = (case payload k of None \<Rightarrow> Scalar Null | Some v \<Rightarrow> v)"

text \<open>
  \<open>pd.DataFrame(payload["hourly"])\<close>: \<open>None\<close> gives the empty frame, another scalar is
  refused by the constructor.
\<close>

definition DataFrame_of :: "json \<Rightarrow> error + dataframe" where
  "DataFrame_of v =
     (case v of
        Columns data \<Rightarrow> DataFrame data
      | Scalar Null \<Rightarrow> Inr \<lparr>index_len = 0, cols = []\<rparr>
      | Scalar _ \<Rightarrow> Inl (ValueError (Message ''DataFrame constructor not properly called!'')))"

text \<open>\<open>df[c] = payload.get(c)\<close>: a scalar is repeated down the column.\<close>

definition setitem_json :: "dataframe \<Rightarrow> string \<Rightarrow> json \<Rightarrow> error + dataframe" where
  "setitem_json df c v =
     (case v of Scalar x \<Rightarrow> Inr (setitem_scalar df c x) | Columns _ \<Rightarrow> Inl NotModelled)"

subsection \<open>enrich\_raw\_data\<close>

definition CITY :: string where
  "CITY = ''Paris''"

text \<open>
  \<open>execution_ts\<close> is the reading of the clock in the first line of the function.
\<close>

definition enrich_raw_data :: "timestamp \<Rightarrow> payload \<Rightarrow> string list \<Rightarrow> error + dataframe" where
  "enrich_raw_data execution_ts payload columns =
     and_then (payload_getitem payload ''hourly'') (\<lambda>hourly.
     and_then (DataFrame_of hourly) (\<lambda>df0.
     and_then (getitem df0 ''time'') (\<lambda>raw_time.
     and_then (to_datetime raw_time) (\<lambda>parsed.
     let df1 = setitem df0 ''time'' parsed in
     and_then (getitem df1 ''time'') (\<lambda>time_col.
     and_then (dt_date time_col) (\<lambda>date_col.
     let df2 = setitem df1 ''date'' date_col in
     and_then (setitem_json df2 ''latitude'' (payload_get payload ''latitude'')) (\<lambda>df3.
     and_then (setitem_json df3 ''longitude'' (payload_get payload ''longitude'')) (\<lambda>df4.
     and_then (setitem_json df4 ''timezone'' (payload_get payload ''timezone'')) (\<lambda>df5.
     let df6 = setitem_scalar df5 ''city'' (Str CITY);
         df7 = setitem_scalar df6 ''execution_time'' (Ts execution_ts) in
     and_then (getitems df7 columns) (\<lambda>projected.
     drop_duplicates projected [''time'']))))))))))"

subsection \<open>ensure\_air\_quality\_table\<close>

datatype sqltype = TIMESTAMPTZ | DOUBLE | VARCHAR | DATE | TIMESTAMP

text \<open>
  The column layout of the \<open>CREATE TABLE\<close> statement of
  \<open>ensure_air_quality_table\<close>, in the order it is written; the flag marks the
  primary key.
\<close>

definition air_quality_table_columns :: "(string \<times> sqltype \<times> bool) list" where
  "air_quality_table_columns =
     [(''time'', TIMESTAMPTZ, True),
      (''pm10'', DOUBLE, False),
      (''pm2_5'', DOUBLE, False),
      (''uv_index'', DOUBLE, False),
      (''latitude'', DOUBLE, False),
      (''longitude'', DOUBLE, False),
      (''timezone'', VARCHAR, False),
      (''city'', VARCHAR, False),
      (''date'', DATE, False),
      (''execution_time'', TIMESTAMP, False)]"

text \<open>
  A stored row. \<open>time\<close> is the primary key, hence never \<open>NULL\<close>; every other column
  is nullable.
\<close>

record row =
  time :: timestamp
  pm10 :: "real option"
  pm2_5 :: "real option"
  uv_index :: "real option"
  latitude :: "real option"
  longitude :: "real option"
  timezone :: "string option"
  city :: "string option"
  date :: "date option"
  execution_time :: "timestamp option"

text \<open>
  The database file holds at most the one table \<open>raw.air_quality_raw\<close>: \<open>None\<close> before
  it is created, its rows afterwards.
\<close>

type_synonym database = "row list option"

definition ensure_air_quality_table :: "database \<Rightarrow> database" where
  "ensure_air_quality_table db = (case db of None \<Rightarrow> Some [] | Some rows \<Rightarrow> Some rows)"

subsection \<open>load\_dataframe\<close>

text \<open>
  The value stored in a column of the given type. \<open>NULL\<close> fits every type; a value of
  the column's own kind is stored as it is (timestamps are UTC throughout); DuckDB's
  conversions between kinds are not described.
\<close>

fun cast :: "sqltype \<Rightarrow> cell \<Rightarrow> error + cell" where
  "cast _ Null = Inr Null"
| "cast DOUBLE (Num x) = Inr (Num x)"
| "cast VARCHAR (Str s) = Inr (Str s)"
| "cast TIMESTAMPTZ (Ts t) = Inr (Ts t)"
| "cast TIMESTAMP (Ts t) = Inr (Ts t)"
| "cast DATE (Dt d) = Inr (Dt d)"
| "cast _ _ = Inl NotModelled"

definition as_real :: "cell option \<Rightarrow> real option" where
  "as_real c = (case c of Some (Num x) \<Rightarrow> Some x | _ \<Rightarrow> None)"

definition as_string :: "cell option \<Rightarrow> string option" where
  "as_string c = (case c of Some (Str s) \<Rightarrow> Some s | _ \<Rightarrow> None)"

definition as_date :: "cell option \<Rightarrow> date option" where
  "as_date c = (case c of Some (Dt d) \<Rightarrow> Some d | _ \<Rightarrow> None)"

definition as_timestamp :: "cell option \<Rightarrow> timestamp option" where
  "as_timestamp c = (case c of Some (Ts t) \<Rightarrow> Some t | _ \<Rightarrow> None)"

text \<open>
  \<open>INSERT ... SELECT *\<close> binds by position: the i-th value of the selected row goes
  to the i-th column of the table, whatever the frame's column is called. The primary
  key is \<open>NOT NULL\<close>.
\<close>

definition bind_row :: "cell list \<Rightarrow> error + row" where
  "bind_row cells =
     (if length cells \<noteq> length air_quality_table_columns then Inl BinderError
      else
        and_then
          (traverse (\<lambda>((name, ty, pk), c). and_then (cast ty c) (\<lambda>v. Inr (name, v)))
             (zip air_quality_table_columns cells))
          (\<lambda>named.
             let stored = map_of named in
             case as_timestamp (stored ''time'') of
               None \<Rightarrow> Inl ConstraintError
             | Some t \<Rightarrow>
                 Inr \<lparr>time = t,
                      pm10 = as_real (stored ''pm10''),
                      pm2_5 = as_real (stored ''pm2_5''),
                      uv_index = as_real (stored ''uv_index''),
                      latitude = as_real (stored ''latitude''),
                      longitude = as_real (stored ''longitude''),
                      timezone = as_string (stored ''timezone''),
                      city = as_string (stored ''city''),
                      date = as_date (stored ''date''),
                      execution_time = as_timestamp (stored ''execution_time'')\<rparr>))"

text \<open>
  Two rows of one statement with the same key: DuckDB releases differ, some refuse
  the statement, some let the later row win. Both are covered.
\<close>

datatype engine = RejectsDuplicates | LastRowWins

fun keep_last :: "row list \<Rightarrow> row list" where
  "keep_last [] = []"
| "keep_last (r # rs) = (if time r \<in> set (map time rs) then keep_last rs else r # keep_last rs)"

definition insert_or_replace :: "engine \<Rightarrow> row list \<Rightarrow> row list \<Rightarrow> error + row list" where
  "insert_or_replace eng stored new =
     (if eng = RejectsDuplicates \<and> \<not> distinct (map time new) then Inl InvalidInputError
      else
        (let incoming = keep_last new
         in Inr (filter (\<lambda>r. time r \<notin> set (map time incoming)) stored @ incoming)))"

text \<open>
  The result is the database after the statement together with the returned
  \<open>row_count\<close>; when an exception leaves the function the database is as it was.
\<close>

definition load_dataframe ::
  "engine \<Rightarrow> database \<Rightarrow> dataframe \<Rightarrow> string list \<Rightarrow> error + (database \<times> nat)" where
  "load_dataframe eng db dataframe columns =
     and_then (getitems dataframe columns) (\<lambda>df_to_load.
       case db of
         None \<Rightarrow> Inl CatalogError
       | Some stored \<Rightarrow>
           and_then (traverse bind_row (frame_rows df_to_load)) (\<lambda>new.
           and_then (insert_or_replace eng stored new) (\<lambda>stored'.
           let row_count = length stored' in Inr (Some stored', row_count))))"

section \<open>air\_quality.py: the enrich and load tasks\<close>

text \<open>
  \<open>astype(str)\<close> on the \<open>date\<close> column, whose cells are dates or \<open>NaT\<close>: \<open>str\<close> of a date
  is its ISO format, of \<open>NaT\<close> the text \<open>NaT\<close>.
\<close>

fun date_astype_str :: "cell \<Rightarrow> error + cell" where
  "date_astype_str (Dt d) = Inr (Str (isoformat d))"
| "date_astype_str Null = Inr (Str ''NaT'')"
| "date_astype_str (Str s) = Inr (Str s)"
| "date_astype_str _ = Inl NotModelled"

definition to_dict_records :: "dataframe \<Rightarrow> (string \<times> cell) list list" where
  "to_dict_records df = map (\<lambda>i. map (\<lambda>(c, v). (c, v ! i)) (cols df)) [0..<index_len df]"

text \<open>
  The \<open>enrich\<close> task is \<open>enrich_raw_data\<close> followed by the serialisation of its frame
  (\<open>assign\<close> and \<open>to_dict\<close>), here \<open>safe_records\<close>.
\<close>

definition safe_records :: "dataframe \<Rightarrow> error + (string \<times> cell) list list" where
  "safe_records dataframe =
     and_then (getitem dataframe ''time'') (\<lambda>time_col.
     and_then (dt_strftime time_col) (\<lambda>time_str.
     and_then (getitem dataframe ''date'') (\<lambda>date_col.
     and_then (traverse date_astype_str date_col) (\<lambda>date_str.
     and_then (getitem dataframe ''execution_time'') (\<lambda>exec_col.
     and_then (dt_strftime exec_col) (\<lambda>exec_str.
     let safe_df = setitem (setitem (setitem dataframe ''time'' time_str) ''date'' date_str)
                     ''execution_time'' exec_str
     in Inr (to_dict_records safe_df)))))))"

definition enrich :: "timestamp \<Rightarrow> payload \<Rightarrow> error + (string \<times> cell) list list" where
  "enrich execution_ts payload =
     and_then (enrich_raw_data execution_ts payload COLUMN_ORDER) safe_records"

text \<open>
  \<open>pd.DataFrame.from_records\<close> on a list of dicts: the columns are the keys in the
  order they first appear, a key a record lacks gives a null; no record, no column.
\<close>

definition from_records :: "(string \<times> cell) list list \<Rightarrow> dataframe" where
  "from_records records =
     (let keys = concat (map (map fst) records);
          columns = boolean_mask (map Not (duplicated keys)) keys
      in \<lparr>index_len = length records,
          cols = map (\<lambda>c. (c, map (\<lambda>r. case map_of r c of None \<Rightarrow> Null | Some v \<Rightarrow> v) records))
                   columns\<rparr>)"

text \<open>The first four lines of the \<open>load\<close> task, up to the call of \<open>load_dataframe\<close>.\<close>

definition load_frame :: "(string \<times> cell) list list \<Rightarrow> error + dataframe" where
  "load_frame records =
     (let dataframe = from_records records in
      and_then (getitem dataframe ''time'') (\<lambda>time_col.
      and_then (to_datetime time_col) (\<lambda>time_parsed.
      let df1 = setitem dataframe ''time'' time_parsed in
      and_then (getitem df1 ''execution_time'') (\<lambda>exec_col.
      and_then (to_datetime exec_col) (\<lambda>exec_parsed.
      let df2 = setitem df1 ''execution_time'' exec_parsed in
      and_then (getitem df2 ''date'') (\<lambda>date_col.
      and_then (to_datetime date_col) (\<lambda>date_parsed.
      and_then (dt_date date_parsed) (\<lambda>dates.
      Inr (setitem df2 ''date'' dates)))))))))"

definition load ::
  "engine \<Rightarrow> database \<Rightarrow> (string \<times> cell) list list \<Rightarrow> error + (database \<times> nat)" where
  "load eng db records =
     and_then (load_frame records) (\<lambda>dataframe. load_dataframe eng db dataframe COLUMN_ORDER)"

section \<open>air\_quality.py: the data quality tasks\<close>

subsection \<open>SQL conditions\<close>

text \<open>
  A comparison with \<open>NULL\<close> is unknown (\<open>None\<close>); \<open>OR\<close> is three-valued; \<open>WHERE\<close> and
  \<open>HAVING\<close> keep a row only when the condition is true.
\<close>

definition sql_lt :: "real option \<Rightarrow> real \<Rightarrow> bool option" where
  "sql_lt x c = (case x of None \<Rightarrow> None | Some v \<Rightarrow> Some (v < c))"

definition sql_gt :: "real option \<Rightarrow> real \<Rightarrow> bool option" where
  "sql_gt x c = (case x of None \<Rightarrow> None | Some v \<Rightarrow> Some (v > c))"

fun sql_or :: "bool option \<Rightarrow> bool option \<Rightarrow> bool option" where
  "sql_or (Some True) _ = Some True"
| "sql_or _ (Some True) = Some True"
| "sql_or (Some False) (Some False) = Some False"
| "sql_or _ _ = None"

definition count_where :: "(row \<Rightarrow> bool option) \<Rightarrow> row list \<Rightarrow> nat" where
  "count_where cond rows = length (filter (\<lambda>r. cond r = Some True) rows)"

subsection \<open>check\_ranges\<close>

definition range_queries :: "(string \<times> (row \<Rightarrow> bool option)) list" where
  "range_queries =
     [(''pm10'', \<lambda>r. sql_or (sql_lt (pm10 r) 0) (sql_gt (pm10 r) 500)),
      (''pm2_5'', \<lambda>r. sql_or (sql_lt (pm2_5 r) 0) (sql_gt (pm2_5 r) 500)),
      (''uv_index'', \<lambda>r. sql_or (sql_lt (uv_index r) 0) (sql_gt (uv_index r) 15))]"

definition check_ranges :: "database \<Rightarrow> error + unit" where
  "check_ranges db =
     (case db of
        None \<Rightarrow> Inl CatalogError
      | Some rows \<Rightarrow>
          (let results = map (\<lambda>(name, q). (name, count_where q rows)) range_queries;
               failures = filter (\<lambda>(k, v). v > 0) results
           in if failures \<noteq> [] then Inl (ValueError (RangeCheckFailures failures))
              else Inr ()))"

subsection \<open>check\_not\_nulls\<close>

definition critical_cols :: "string list" where
  "critical_cols =
     [''pm10'', ''pm2_5'', ''uv_index'', ''latitude'', ''longitude'', ''timezone'', ''city'']"

text \<open>\<open>col IS NULL\<close> on a stored row, for the column named \<open>col\<close>.\<close>

definition is_null :: "string \<Rightarrow> row \<Rightarrow> bool" where
  "is_null col r =
     (if col = ''pm10'' then pm10 r = None
      else if col = ''pm2_5'' then pm2_5 r = None
      else if col = ''uv_index'' then uv_index r = None
      else if col = ''latitude'' then latitude r = None
      else if col = ''longitude'' then longitude r = None
      else if col = ''timezone'' then timezone r = None
      else if col = ''city'' then city r = None
      else if col = ''date'' then date r = None
      else if col = ''execution_time'' then execution_time r = None
      else False)"

definition check_not_nulls :: "database \<Rightarrow> error + unit" where
  "check_not_nulls db =
     (case db of
        None \<Rightarrow> Inl CatalogError
      | Some rows \<Rightarrow>
          (let count = length (filter (\<lambda>r. list_ex (\<lambda>col. is_null col r) critical_cols) rows)
           in if count > 0 then Inl (ValueError (NullsDetected count)) else Inr ()))"

subsection \<open>check\_completeness\<close>

text \<open>
  \<open>GROUP BY 1\<close> groups by \<open>date\<close> (a \<open>NULL\<close> date is a group of its own); SQL leaves
  the order of the groups open, here they come in the order of \<open>remdups\<close>.
\<close>

definition completeness_groups :: "row list \<Rightarrow> (date option \<times> nat \<times> nat) list" where
  "completeness_groups rows =
     map (\<lambda>d. (d,
                length (filter (\<lambda>r. date r = d) rows),
                length (remdups (map time (filter (\<lambda>r. date r = d) rows)))))
         (remdups (map date rows))"

definition check_completeness :: "database \<Rightarrow> error + unit" where
  "check_completeness db =
     (case db of
        None \<Rightarrow> Inl CatalogError
      | Some rows \<Rightarrow>
          (let failures =
                 filter (\<lambda>(d, rows_count, distinct_times). rows_count \<noteq> 24 \<or> distinct_times \<noteq> 24)
                        (completeness_groups rows)
           in if failures \<noteq> [] then Inl (ValueError (CompletenessFailure failures))
              else Inr ()))"

section \<open>Notions used in the statements\<close>

text \<open>
  The positions of first occurrences: position \<open>i\<close> is one when the value there occurs
  at no earlier position.
\<close>

definition first_positions :: "'a list \<Rightarrow> nat list" where
  "first_positions xs = filter (\<lambda>i. xs ! i \<notin> set (take i xs)) [0..<length xs]"

text \<open>The calendar dates of a column of timestamps (\<open>NaT\<close> stays null).\<close>

definition dates_of :: "cell list \<Rightarrow> cell list" where
  "dates_of column = map (\<lambda>c. case c of Ts t \<Rightarrow> Dt (ts_date t) | _ \<Rightarrow> Null) column"

text \<open>
  A timestamp cut to whole seconds, and what the serialisation makes of a cell of a
  timestamp column and of the \<open>date\<close> column.
\<close>

definition whole_seconds :: "timestamp \<Rightarrow> timestamp" where
  "whole_seconds t = Timestamp (ts_date t) (ts_hour t) (ts_minute t) (ts_second t) 0"

definition whole_seconds_cell :: "cell \<Rightarrow> cell" where
  "whole_seconds_cell c = (case c of Ts t \<Rightarrow> Ts (whole_seconds t) | _ \<Rightarrow> c)"

definition strftime_cell :: "cell \<Rightarrow> cell" where
  "strftime_cell c = (case c of Ts t \<Rightarrow> Str (strftime t) | _ \<Rightarrow> Null)"

definition date_str_cell :: "cell \<Rightarrow> cell" where
  "date_str_cell c = (case c of Dt d \<Rightarrow> Str (isoformat d) | _ \<Rightarrow> Str ''NaT'')"

text \<open>
  What \<open>SELECT col\<close> reads from a stored row, for a column of the table.
\<close>

definition column_value :: "string \<Rightarrow> row \<Rightarrow> cell" where
  "column_value col r =
     (if col = ''time'' then Ts (time r)
      else if col = ''pm10'' then (case pm10 r of None \<Rightarrow> Null | Some x \<Rightarrow> Num x)
      else if col = ''pm2_5'' then (case pm2_5 r of None \<Rightarrow> Null | Some x \<Rightarrow> Num x)
      else if col = ''uv_index'' then (case uv_index r of None \<Rightarrow> Null | Some x \<Rightarrow> Num x)
      else if col = ''latitude'' then (case latitude r of None \<Rightarrow> Null | Some x \<Rightarrow> Num x)
      else if col = ''longitude'' then (case longitude r of None \<Rightarrow> Null | Some x \<Rightarrow> Num x)
      else if col = ''timezone'' then (case timezone r of None \<Rightarrow> Null | Some s \<Rightarrow> Str s)
      else if col = ''city'' then (case city r of None \<Rightarrow> Null | Some s \<Rightarrow> Str s)
      else if col = ''date'' then (case date r of None \<Rightarrow> Null | Some d \<Rightarrow> Dt d)
      else if col = ''execution_time'' then
        (case execution_time r of None \<Rightarrow> Null | Some t \<Rightarrow> Ts t)
      else Null)"

section \<open>Sample data\<close>

definition sample_row :: "nat \<Rightarrow> real \<Rightarrow> row" where
  "sample_row h uv =
     \<lparr>time = Timestamp (Date 2025 11 4) h 0 0 0,
      pm10 = Some 10, pm2_5 = Some 5, uv_index = Some uv,
      latitude = Some 48.8566, longitude = Some 2.3522,
      timezone = Some ''Europe/Paris'', city = Some ''Paris'',
      date = Some (Date 2025 11 4),
      execution_time = Some (Timestamp (Date 2025 11 5) 6 30 0 0)\<rparr>"

text \<open>The payload of the repository's test.\<close>

definition test_payload :: payload where
  "test_payload =
     [''hourly'' \<mapsto> Columns
        [(''time'', [Str ''2025-11-04T00:00'', Str ''2025-11-04T00:00'', Str ''2025-11-04T01:00'']),
         (''pm10'', [Num 10, Num 10, Num 12]),
         (''pm2_5'', [Num 5, Num 5, Num 6]),
         (''uv_index'', [Num 0, Num 0, Num 0.1])],
      ''latitude'' \<mapsto> Scalar (Num 48.8566),
      ''longitude'' \<mapsto> Scalar (Num 2.3522),
      ''timezone'' \<mapsto> Scalar (Str ''Europe/Paris'')]"

definition test_clock :: timestamp where
  "test_clock = Timestamp (Date 2025 11 5) 6 30 0 250000000"

text \<open>The frame \<open>enrich_raw_data\<close> makes of the test's payload at \<open>test_clock\<close>.\<close>

definition test_frame :: dataframe where
  "test_frame =
     \<lparr>index_len = 2,
      cols =
        [(''time'', [Ts (Timestamp (Date 2025 11 4) 0 0 0 0), Ts (Timestamp (Date 2025 11 4) 1 0 0 0)]),
         (''pm10'', [Num 10, Num 12]),
         (''pm2_5'', [Num 5, Num 6]),
         (''uv_index'', [Num 0, Num 0.1]),
         (''latitude'', [Num 48.8566, Num 48.8566]),
         (''longitude'', [Num 2.3522, Num 2.3522]),
         (''timezone'', [Str ''Europe/Paris'', Str ''Europe/Paris'']),
         (''city'', [Str ''Paris'', Str ''Paris'']),
         (''date'', [Dt (Date 2025 11 4), Dt (Date 2025 11 4)]),
         (''execution_time'', [Ts test_clock, Ts test_clock])]\<rparr>"

text \<open>A day's table: the first \<open>n\<close> hours of 2025-11-04.\<close>

definition hours :: "nat \<Rightarrow> row list" where
  "hours n = map (\<lambda>h. sample_row h 1) [0..<n]"

text \<open>The rows of \<open>test_frame\<close> as the table stores them, and a table to load them into.\<close>

definition test_rows :: "row list" where
  "test_rows =
     [\<lparr>time = Timestamp (Date 2025 11 4) 0 0 0 0, pm10 = Some 10, pm2_5 = Some 5,
       uv_index = Some 0, latitude = Some 48.8566, longitude = Some 2.3522,
       timezone = Some ''Europe/Paris'', city = Some ''Paris'', date = Some (Date 2025 11 4),
       execution_time = Some test_clock\<rparr>,
      \<lparr>time = Timestamp (Date 2025 11 4) 1 0 0 0, pm10 = Some 12, pm2_5 = Some 6,
       uv_index = Some 0.1, latitude = Some 48.8566, longitude = Some 2.3522,
       timezone = Some ''Europe/Paris'', city = Some ''Paris'', date = Some (Date 2025 11 4),
       execution_time = Some test_clock\<rparr>]"

definition sample_table :: "row list" where
  "sample_table = [sample_row 1 3, sample_row 5 3, sample_row 7 3]"

text \<open>
  Further payloads: one whose request asked for \<open>pm10\<close> only, one with a field the
  pipeline does not know, one without the top-level \<open>latitude\<close>, and one for a day
  without measurements.
\<close>

definition partial_payload :: payload where
  "partial_payload =
     [''hourly'' \<mapsto> Columns
        [(''time'', [Str ''2025-11-04T00:00'', Str ''2025-11-04T00:00'', Str ''2025-11-04T01:00'']),
         (''pm10'', [Num 10, Num 10, Num 12])],
      ''latitude'' \<mapsto> Scalar (Num 48.8566),
      ''longitude'' \<mapsto> Scalar (Num 2.3522),
      ''timezone'' \<mapsto> Scalar (Str ''Europe/Paris'')]"

definition ozone_payload :: payload where
  "ozone_payload =
     [''hourly'' \<mapsto> Columns
        [(''time'', [Str ''2025-11-04T00:00'', Str ''2025-11-04T00:00'', Str ''2025-11-04T01:00'']),
         (''pm10'', [Num 10, Num 10, Num 12]),
         (''pm2_5'', [Num 5, Num 5, Num 6]),
         (''uv_index'', [Num 0, Num 0, Num 0.1]),
         (''ozone'', [Num 40, Num 40, Num 41])],
      ''latitude'' \<mapsto> Scalar (Num 48.8566),
      ''longitude'' \<mapsto> Scalar (Num 2.3522),
      ''timezone'' \<mapsto> Scalar (Str ''Europe/Paris'')]"

definition no_latitude_payload :: payload where
  "no_latitude_payload = test_payload(''latitude'' := None)"

definition no_latitude_frame :: dataframe where
  "no_latitude_frame = setitem test_frame ''latitude'' [Null, Null]"

definition no_latitude_rows :: "row list" where
  "no_latitude_rows = map (\<lambda>r. r\<lparr>latitude := None\<rparr>) test_rows"

definition empty_payload :: payload where
  "empty_payload =
     [''hourly'' \<mapsto> Columns [(''time'', []), (''pm10'', []), (''pm2_5'', []), (''uv_index'', [])],
      ''latitude'' \<mapsto> Scalar (Num 48.8566),
      ''longitude'' \<mapsto> Scalar (Num 2.3522),
      ''timezone'' \<mapsto> Scalar (Str ''Europe/Paris'')]"

text \<open>
  The sample frame with its columns in the opposite order and one more column in
  front, and a payload whose second \<open>time\<close> has seconds while the first has none (and
  which lacks \<open>pm10\<close>).
\<close>

definition shuffled_frame :: dataframe where
  "shuffled_frame =
     \<lparr>index_len = 2, cols = (''ozone'', [Num 40, Num 41]) # rev (cols test_frame)\<rparr>"

definition mixed_payload :: payload where
  "mixed_payload =
     [''hourly'' \<mapsto> Columns
        [(''time'', [Str ''2025-11-04T00:00'', Str ''2025-11-04T01:00:00'']),
         (''pm2_5'', [Num 5, Num 6]),
         (''uv_index'', [Num 0, Num 0.1])],
      ''latitude'' \<mapsto> Scalar (Num 48.8566),
      ''longitude'' \<mapsto> Scalar (Num 2.3522),
      ''timezone'' \<mapsto> Scalar (Str ''Europe/Paris'')]"

section \<open>Basic facts\<close>

lemma and_then_Inr: "and_then m f = Inr y \<longleftrightarrow> (\<exists>x. m = Inr x \<and> f x = Inr y)"
  by (cases m) (simp_all add: and_then_def)

lemma and_then_Inl: "and_then m f = Inl e \<longleftrightarrow> m = Inl e \<or> (\<exists>x. m = Inr x \<and> f x = Inl e)"
  by (cases m) (simp_all add: and_then_def)

lemma and_then_simps [simp]: "and_then (Inr x) f = f x" "and_then (Inl e) f = Inl e"
  by (simp_all add: and_then_def)

lemma traverse_Inr_iff: "traverse f xs = Inr ys \<longleftrightarrow> list_all2 (\<lambda>x y. f x = Inr y) xs ys"
proof (induction xs arbitrary: ys)
  case Nil
  then show ?case by auto
next
  case (Cons x xs)
  show ?case
    by (cases ys) (auto simp: and_then_Inr Cons)
qed

lemma traverse_length: "traverse f xs = Inr ys \<Longrightarrow> length ys = length xs"
  by (simp add: traverse_Inr_iff list_all2_lengthD)

lemma traverse_set:
  "traverse f xs = Inr ys \<Longrightarrow> y \<in> set ys \<Longrightarrow> \<exists>x \<in> set xs. f x = Inr y"
  unfolding traverse_Inr_iff
  by (induction xs ys rule: list_all2_induct) auto

lemma traverse_map:
  "(\<And>x. x \<in> set xs \<Longrightarrow> f x = Inr (g x)) \<Longrightarrow> traverse f xs = Inr (map g xs)"
  by (induction xs) simp_all

text \<open>For evaluation: run the first computation before looking at the rest.\<close>

lemma and_then_weak_cong: "m = m' \<Longrightarrow> and_then m f = and_then m' f"
  by simp

lemmas datetime_defs =
  parse_datetime_def parse_date_def parse_clock_def decimal_def digit_def
  valid_date_def days_in_month_def is_leap_def nat_strings_def layout_of_def

lemmas bounds_defs =
  within_bounds_def in_bounds_def ts_fields_def Timestamp_min_def Timestamp_max_def

lemmas frame_defs =
  DataFrame_def getitem_def setitem_def setitem_scalar_def getitems_def frame_rows_def
  duplicated_def boolean_mask_def drop_duplicates_def dt_date_def

section \<open>The sample payload, evaluated\<close>

lemma guess_format_test:
  "guess_format (Str ''2025-11-04T00:00'' # rest) = Some (16, False)"
  by (simp add: guess_format_def datetime_defs)

lemma parse_midnight:
  "to_datetime_cell (Some (16, False)) (Str ''2025-11-04T00:00'') =
   Inr (Ts (Timestamp (Date 2025 11 4) 0 0 0 0))"
  by (simp add: datetime_defs bounds_defs)

lemma parse_one_o_clock:
  "to_datetime_cell (Some (16, False)) (Str ''2025-11-04T01:00'') =
   Inr (Ts (Timestamp (Date 2025 11 4) 1 0 0 0))"
  by (simp add: datetime_defs bounds_defs)

lemma to_datetime_test:
  "to_datetime [Str ''2025-11-04T00:00'', Str ''2025-11-04T00:00'', Str ''2025-11-04T01:00''] =
   Inr [Ts (Timestamp (Date 2025 11 4) 0 0 0 0), Ts (Timestamp (Date 2025 11 4) 0 0 0 0),
        Ts (Timestamp (Date 2025 11 4) 1 0 0 0)]"
  by (simp add: to_datetime_def guess_format_test parse_midnight parse_one_o_clock
      del: to_datetime_cell.simps)

text \<open>
  One format for the whole column: a second value with seconds, after a first one
  without, is refused, and so is a year that a count of nanoseconds does not reach.
\<close>

lemma to_datetime_mixed_forms:
  "to_datetime [Str ''2025-11-04T00:00'', Str ''2025-11-04T01:00:00''] =
   Inl (ValueError (Message ''time data does not match format''))"
  by (simp add: to_datetime_def guess_format_test parse_midnight del: to_datetime_cell.simps)
     (simp add: datetime_defs)

lemma to_datetime_out_of_bounds:
  "to_datetime [Str ''2263-01-01T00:00''] = Inl OutOfBoundsDatetime"
  by (simp add: to_datetime_def guess_format_def datetime_defs bounds_defs)

lemma enrich_test_payload:
  "enrich_raw_data test_clock test_payload COLUMN_ORDER = Inr test_frame"
  by (simp add: enrich_raw_data_def test_payload_def payload_getitem_def payload_get_def
      DataFrame_of_def setitem_json_def frame_defs to_datetime_test CITY_def
      COLUMN_ORDER_def test_frame_def Let_def cong: and_then_weak_cong)

section \<open>Removing duplicates\<close>

lemma length_duplicated_from: "length (duplicated_from seen xs) = length xs"
  by (induction xs arbitrary: seen) auto

lemma duplicated_from_nth:
  "i < length xs \<Longrightarrow> duplicated_from seen xs ! i \<longleftrightarrow> xs ! i \<in> set seen \<union> set (take i xs)"
proof (induction xs arbitrary: seen i)
  case Nil
  then show ?case by simp
next
  case (Cons x xs)
  show ?case
  proof (cases i)
    case 0
    then show ?thesis by simp
  next
    case (Suc j)
    with Cons.prems have "j < length xs" by simp
    from Cons.IH [OF this, of "x # seen"] Suc show ?thesis by auto
  qed
qed

lemma boolean_mask_Cons:
  "boolean_mask (b # m) (x # v) = (if b then x # boolean_mask m v else boolean_mask m v)"
  by (simp add: boolean_mask_def)

lemma boolean_mask_positions:
  "length m = length v \<Longrightarrow> boolean_mask m v = map ((!) v) (filter ((!) m) [0..<length v])"
proof (induction m v rule: list_induct2)
  case Nil
  then show ?case by (simp add: boolean_mask_def)
next
  case (Cons b m x v)
  have "[0..<length (x # v)] = 0 # map Suc [0..<length v]"
    by (simp add: upt_conv_Cons map_Suc_upt del: upt_Suc)
  then show ?case
    using Cons by (simp add: boolean_mask_Cons filter_map comp_def del: upt_Suc)
qed

lemma boolean_mask_first:
  assumes "length v = length xs"
  shows "boolean_mask (map Not (duplicated xs)) v = map ((!) v) (first_positions xs)"
proof -
  have "filter ((!) (map Not (duplicated xs))) [0..<length v] = first_positions xs"
    unfolding first_positions_def assms
    by (rule filter_cong)
       (auto simp: duplicated_def length_duplicated_from duplicated_from_nth)
  then show ?thesis
    using assms by (simp add: boolean_mask_positions duplicated_def length_duplicated_from)
qed

lemma count_not_duplicated_from:
  "length (filter Not (duplicated_from seen xs)) = card (set xs - set seen)"
proof (induction xs arbitrary: seen)
  case Nil
  then show ?case by simp
next
  case (Cons x xs)
  note ih = Cons [of "x # seen"]
  show ?case
  proof (cases "x \<in> set seen")
    case True
    then have "set (x # xs) - set seen = set xs - set (x # seen)" by auto
    then have "card (set (x # xs) - set seen) = card (set xs - set (x # seen))" by (rule arg_cong)
    with ih True show ?thesis by (simp del: set_simps)
  next
    case False
    then have eq: "set (x # xs) - set seen = insert x (set xs - set (x # seen))" by auto
    have "x \<notin> set xs - set (x # seen)" by simp
    then have "card (insert x (set xs - set (x # seen))) = Suc (card (set xs - set (x # seen)))"
      by (simp del: set_simps)
    with eq have "card (set (x # xs) - set seen) = Suc (card (set xs - set (x # seen)))"
      by (simp only:)
    with ih False show ?thesis by (simp del: set_simps)
  qed
qed

lemma count_not_duplicated:
  "length (filter id (map Not (duplicated xs))) = card (set xs)"
  using count_not_duplicated_from [of "[]" xs] by (simp add: duplicated_def filter_map comp_def)

lemma length_boolean_mask:
  "length m = length v \<Longrightarrow> length (boolean_mask m v) = length (filter id m)"
  by (induction m v rule: list_induct2) (simp_all add: boolean_mask_def)

lemma length_first_positions: "length (first_positions xs) = card (set xs)"
proof -
  have "length (boolean_mask (map Not (duplicated xs)) xs) = length (first_positions xs)"
    by (simp add: boolean_mask_first)
  moreover have "length (boolean_mask (map Not (duplicated xs)) xs) =
      length (filter id (map Not (duplicated xs)))"
    by (rule length_boolean_mask) (simp add: duplicated_def length_duplicated_from)
  ultimately show ?thesis by (simp only: count_not_duplicated)
qed

lemma duplicated_from_map:
  "inj f \<Longrightarrow> duplicated_from (map f seen) (map f xs) = duplicated_from seen xs"
proof (induction xs arbitrary: seen)
  case Nil
  then show ?case by simp
next
  case (Cons a xs)
  from Cons.IH [OF Cons.prems, of "a # seen"] Cons.prems show ?case
    by (simp add: inj_image_mem_iff)
qed

lemma duplicated_map: "inj f \<Longrightarrow> duplicated (map f xs) = duplicated xs"
  using duplicated_from_map [of f "[]" xs] by (simp add: duplicated_def)

lemma boolean_mask_replicate:
  "length m = n \<Longrightarrow> boolean_mask m (replicate n x) = replicate (length (filter id m)) x"
proof (induction m arbitrary: n)
  case Nil
  then show ?case by (simp add: boolean_mask_def)
next
  case (Cons b m)
  then obtain k where "n = Suc k" "length m = k" by (cases n) auto
  with Cons.IH [of k] show ?case by (simp add: boolean_mask_Cons)
qed

lemma mask_replicate_first:
  "length T = n \<Longrightarrow>
   boolean_mask (map Not (duplicated T)) (replicate n x) = replicate (card (set T)) x"
  using boolean_mask_replicate [of "map Not (duplicated T)" n x] count_not_duplicated [of T]
  by (simp add: duplicated_def length_duplicated_from)

lemma positions_replicate:
  "length T = n \<Longrightarrow> map ((!) (replicate n x)) (first_positions T) = replicate (card (set T)) x"
  using boolean_mask_first [of "replicate n x" T] mask_replicate_first [of T n x] by simp

lemma kept_from:
  "distinct (boolean_mask (map Not (duplicated_from seen xs)) xs) \<and>
   set (boolean_mask (map Not (duplicated_from seen xs)) xs) = set xs - set seen"
proof (induction xs arbitrary: seen)
  case Nil
  then show ?case by (simp add: boolean_mask_def)
next
  case (Cons x xs)
  from Cons [of "x # seen"] show ?case
    by (auto simp: boolean_mask_Cons)
qed

lemma kept_times:
  "distinct (map ((!) T) (first_positions T)) \<and> set (map ((!) T) (first_positions T)) = set T"
  using kept_from [of "[]" T] boolean_mask_first [of T T]
  by (simp add: duplicated_def)

lemma first_positions_first:
  "i \<in> set (first_positions T) \<longleftrightarrow> i < length T \<and> (\<forall>j<i. T ! j \<noteq> T ! i)"
  by (auto simp: first_positions_def in_set_conv_nth)

lemma duplicated_from_append:
  "duplicated_from seen (xs @ ys) = duplicated_from seen xs @ duplicated_from (rev xs @ seen) ys"
  by (induction xs arbitrary: seen) auto

lemma boolean_mask_append:
  "length m1 = length v1 \<Longrightarrow>
   boolean_mask (m1 @ m2) (v1 @ v2) = boolean_mask m1 v1 @ boolean_mask m2 v2"
  by (simp add: boolean_mask_def)

lemma boolean_mask_Nil [simp]: "boolean_mask [] [] = []"
  by (simp add: boolean_mask_def)

lemma mask_all_seen:
  "set ys \<subseteq> set seen \<Longrightarrow> boolean_mask (map Not (duplicated_from seen ys)) ys = []"
proof (induction ys arbitrary: seen)
  case Nil
  then show ?case by simp
next
  case (Cons a ys)
  then have "set ys \<subseteq> set (a # seen)" by auto
  from Cons.IH [OF this] Cons.prems show ?case by (simp add: boolean_mask_Cons)
qed

lemma mask_all_new:
  "distinct xs \<Longrightarrow> set xs \<inter> set seen = {} \<Longrightarrow>
   boolean_mask (map Not (duplicated_from seen xs)) xs = xs"
  by (induction xs arbitrary: seen) (auto simp: boolean_mask_Cons)

lemma first_of_repeated:
  assumes "distinct cs" "set rest \<subseteq> set cs"
  shows "boolean_mask (map Not (duplicated (cs @ rest))) (cs @ rest) = cs"
proof -
  have "boolean_mask (map Not (duplicated_from [] cs)) cs = cs"
    using assms(1) by (simp add: mask_all_new)
  moreover have "boolean_mask (map Not (duplicated_from (rev cs) rest)) rest = []"
    using assms(2) by (simp add: mask_all_seen)
  ultimately show ?thesis
    by (simp add: duplicated_def duplicated_from_append boolean_mask_append length_duplicated_from)
qed

section \<open>Formatting and parsing timestamps\<close>

lemma below_ten:
  "(k::nat) < 10 \<Longrightarrow>
   k = 0 \<or> k = 1 \<or> k = 2 \<or> k = 3 \<or> k = 4 \<or> k = 5 \<or> k = 6 \<or> k = 7 \<or> k = 8 \<or> k = 9"
  by arith

lemma digit_table:
  assumes "k < 10"
  shows "digit (''0123456789'' ! k) = Some k"
  using below_ten [OF assms] by (elim disjE) (simp_all add: digit_def)

lemma digit_digit_char: "digit (digit_char n) = Some (n mod 10)"
  by (simp add: digit_char_def digit_table)

lemma digits_chain:
  "10 * a + b = (c::nat) \<Longrightarrow> 10 * c + d = e \<Longrightarrow> 10 * e + f = n \<Longrightarrow>
   1000 * a + 100 * b + 10 * d + f = n"
  by auto

lemma four_digits_value:
  "1000 * (n div 1000) + 100 * (n div 100 mod 10) + 10 * (n div 10 mod 10) + n mod 10 = (n::nat)"
proof (rule digits_chain)
  have "n div 100 div 10 = n div 1000" by (simp add: div_mult2_eq [symmetric])
  then show "10 * (n div 1000) + n div 100 mod 10 = n div 100"
    using div_mult_mod_eq [of "n div 100" 10] by simp
  have "n div 10 div 10 = n div 100" by (simp add: div_mult2_eq [symmetric])
  then show "10 * (n div 100) + n div 10 mod 10 = n div 10"
    using div_mult_mod_eq [of "n div 10" 10] by simp
  show "10 * (n div 10) + n mod 10 = n" by simp
qed

lemma decimal_two: "n < 100 \<Longrightarrow> decimal [digit_char (n div 10), digit_char n] = Some n"
  by (simp add: decimal_def digit_digit_char)

lemma decimal_four:
  "n < 10000 \<Longrightarrow>
   decimal [digit_char (n div 1000), digit_char (n div 100), digit_char (n div 10), digit_char n] =
   Some n"
  by (simp add: decimal_def digit_digit_char four_digits_value)

lemma digit_char_not_punct:
  "digit_char n \<noteq> CHR ''-''" "digit_char n \<noteq> CHR '':''" "digit_char n \<noteq> CHR ''T''"
  "digit_char n \<noteq> CHR ''Z''"
proof -
  have "digit (digit_char n) \<noteq> None" by (simp add: digit_digit_char)
  moreover have "digit CHR ''-'' = None" "digit CHR '':'' = None" "digit CHR ''T'' = None"
    "digit CHR ''Z'' = None"
    by (simp_all add: digit_def)
  ultimately show "digit_char n \<noteq> CHR ''-''" "digit_char n \<noteq> CHR '':''"
    "digit_char n \<noteq> CHR ''T''" "digit_char n \<noteq> CHR ''Z''"
    by auto
qed

lemma parse_date_isoformat:
  assumes "valid_date d"
  shows "parse_date (isoformat d) = Some (Some d)"
proof -
  obtain y m dd where d: "d = Date y m dd" by (cases d)
  from assms d have b: "y < 10000" "m < 100" "dd < 100"
    by (auto simp: valid_date_def days_in_month_def split: if_splits)
  from assms d b show ?thesis
    by (simp add: isoformat_def four_digits_def two_digits_def parse_date_def decimal_two
        decimal_four)
qed

lemma parse_clock_format:
  assumes "h < 24" "m < 60" "s < 60"
  shows "parse_clock (two_digits h @ '':'' @ two_digits m @ '':'' @ two_digits s) = Some (Some (h, m, s))"
proof -
  from assms have "h < 100" "m < 100" "s < 100" by auto
  with assms show ?thesis
    by (simp add: two_digits_def parse_clock_def decimal_two)
qed

lemma length_isoformat: "length (isoformat d) = 10"
  by (simp add: isoformat_def four_digits_def two_digits_def)

lemma parse_datetime_isoformat:
  assumes "valid_date d"
  shows "parse_datetime (isoformat d) = Some (Some (Timestamp d 0 0 0 0))"
  using assms by (simp add: parse_datetime_def length_isoformat parse_date_isoformat)

lemma parse_datetime_strftime:
  assumes "valid_timestamp t"
  shows "parse_datetime (strftime t) =
         Some (Some (Timestamp (ts_date t) (ts_hour t) (ts_minute t) (ts_second t) 0))"
proof -
  define iso where "iso = isoformat (ts_date t)"
  define clock where
    "clock = two_digits (ts_hour t) @ '':'' @ two_digits (ts_minute t) @ '':'' @
             two_digits (ts_second t)"
  have s: "strftime t = iso @ CHR ''T'' # clock @ [CHR ''Z'']"
    by (simp add: strftime_def iso_def clock_def)
  have li: "length iso = 10" by (simp add: iso_def length_isoformat)
  have lc: "length clock = 8" by (simp add: clock_def two_digits_def)
  have a: "parse_date iso = Some (Some (ts_date t))"
    using assms by (simp add: iso_def valid_timestamp_def parse_date_isoformat)
  have b: "parse_clock clock = Some (Some (ts_hour t, ts_minute t, ts_second t))"
    unfolding clock_def using assms by (intro parse_clock_format) (simp_all add: valid_timestamp_def)
  show ?thesis
    by (simp add: parse_datetime_def s li lc a b nth_append butlast_append)
qed

lemma length_strftime: "length (strftime t) = 20"
  by (simp add: strftime_def length_isoformat two_digits_def)

lemma strftime_not_missing: "strftime t \<notin> set nat_strings"
proof
  assume "strftime t \<in> set nat_strings"
  then have "length (strftime t) \<le> 3" by (auto simp: nat_strings_def)
  then show False by (simp add: length_strftime)
qed

lemma isoformat_not_missing: "isoformat d \<notin> set nat_strings"
proof
  assume "isoformat d \<in> set nat_strings"
  then have "length (isoformat d) \<le> 3" by (auto simp: nat_strings_def)
  then show False by (simp add: length_isoformat)
qed

lemma layout_strftime: "layout_of (strftime t) = (20, True)"
  by (simp add: layout_of_def length_strftime) (simp add: strftime_def)

lemma layout_isoformat: "layout_of (isoformat d) = (10, False)"
  by (simp add: layout_of_def length_isoformat)
     (simp add: isoformat_def two_digits_def digit_char_not_punct)

lemma whole_seconds_id: "ts_nano t = 0 \<Longrightarrow> whole_seconds t = t"
  by (cases t) (simp add: whole_seconds_def)

text \<open>
  A column whose texts are all of one form: the format guessed from the first of them
  fits each, and the column is parsed value by value.
\<close>

lemma first_text_uniform:
  assumes "\<And>c. c \<in> set col \<Longrightarrow> is_missing c \<or> (\<exists>s. c = Str s \<and> s \<notin> set nat_strings \<and> P s)"
  shows "(first_text col = None \<and> (\<forall>c \<in> set col. is_missing c)) \<or>
         (\<exists>s. first_text col = Some s \<and> P s)"
  using assms
proof (induction col)
  case Nil
  then show ?case by simp
next
  case (Cons c col)
  from Cons.prems [of c] have "is_missing c \<or> (\<exists>s. c = Str s \<and> s \<notin> set nat_strings \<and> P s)"
    by simp
  then show ?case
  proof
    assume "is_missing c"
    with Cons.IH Cons.prems show ?thesis by auto
  next
    assume "\<exists>s. c = Str s \<and> s \<notin> set nat_strings \<and> P s"
    then show ?thesis by auto
  qed
qed

lemma traverse_map_map:
  "(\<And>x. x \<in> set xs \<Longrightarrow> f (h x) = Inr (g x)) \<Longrightarrow> traverse f (map h xs) = Inr (map g xs)"
  by (induction xs) simp_all

lemma to_datetime_map:
  assumes cells: "\<And>x. x \<in> set xs \<Longrightarrow>
      (is_missing (h x) \<and> (h x = Null \<or> (\<exists>s. h x = Str s)) \<and> g x = Null) \<or>
      (\<exists>s t. h x = Str s \<and> s \<notin> set nat_strings \<and> layout_of s = f \<and>
         parse_datetime s = Some (Some t) \<and> in_bounds t \<and> g x = Ts t)"
  shows "to_datetime (map h xs) = Inr (map g xs)"
proof -
  let ?P = "\<lambda>s. layout_of s = f \<and> (\<exists>t. parse_datetime s = Some (Some t))"
  have "is_missing c \<or> (\<exists>s. c = Str s \<and> s \<notin> set nat_strings \<and> ?P s)" if "c \<in> set (map h xs)" for c
    using that cells by fastforce
  from first_text_uniform [of "map h xs" ?P, OF this]
  have fmt: "(\<forall>x \<in> set xs. is_missing (h x)) \<or> guess_format (map h xs) = Some f"
    by (auto simp: guess_format_def)
  have "to_datetime_cell (guess_format (map h xs)) (h x) = Inr (g x)" if "x \<in> set xs" for x
  proof -
    from cells [OF that] show ?thesis
    proof (elim disjE conjE exE)
      assume "is_missing (h x)" "h x = Null" "g x = Null"
      then show ?thesis by simp
    next
      fix s assume "is_missing (h x)" "h x = Str s" "g x = Null"
      then show ?thesis by simp
    next
      fix s t
      assume a: "h x = Str s" "s \<notin> set nat_strings" "layout_of s = f"
        "parse_datetime s = Some (Some t)" "in_bounds t" "g x = Ts t"
      then have "\<not> is_missing (h x)" by simp
      with fmt that have "guess_format (map h xs) = Some f" by blast
      with a show ?thesis by (simp add: within_bounds_def)
    qed
  qed
  then show ?thesis
    unfolding to_datetime_def by (rule traverse_map_map)
qed

lemma dt_strftime_column:
  assumes "\<forall>c \<in> set xs. c = Null \<or> (\<exists>t. c = Ts t)"
  shows "dt_strftime xs = Inr (map strftime_cell xs)"
proof -
  have "traverse dt_cell xs = Inr (map (\<lambda>c. case c of Ts t \<Rightarrow> Some t | _ \<Rightarrow> None) xs)"
    using assms by (intro traverse_map) auto
  then show ?thesis
    using assms by (auto simp: dt_strftime_def strftime_cell_def split: cell.splits)
qed

lemma to_datetime_strftime_column:
  assumes "\<forall>c \<in> set xs. c = Null \<or>
      (\<exists>t. c = Ts t \<and> valid_timestamp t \<and> in_bounds (whole_seconds t))"
  shows "to_datetime (map strftime_cell xs) = Inr (map whole_seconds_cell xs)"
proof (rule to_datetime_map [where f = "(20, True)"])
  fix c assume "c \<in> set xs"
  with assms have "c = Null \<or> (\<exists>t. c = Ts t \<and> valid_timestamp t \<and> in_bounds (whole_seconds t))"
    by blast
  then show "(is_missing (strftime_cell c) \<and>
        (strftime_cell c = Null \<or> (\<exists>s. strftime_cell c = Str s)) \<and> whole_seconds_cell c = Null) \<or>
      (\<exists>s t. strftime_cell c = Str s \<and> s \<notin> set nat_strings \<and> layout_of s = (20, True) \<and>
         parse_datetime s = Some (Some t) \<and> in_bounds t \<and> whole_seconds_cell c = Ts t)"
  proof (elim disjE exE conjE)
    assume "c = Null"
    then show ?thesis by (simp add: strftime_cell_def whole_seconds_cell_def)
  next
    fix t assume "c = Ts t" "valid_timestamp t" "in_bounds (whole_seconds t)"
    then show ?thesis
      by (simp add: strftime_cell_def whole_seconds_cell_def strftime_not_missing
          layout_strftime parse_datetime_strftime whole_seconds_def)
  qed
qed

lemma date_astype_str_column:
  assumes "\<forall>c \<in> set xs. c = Null \<or> (\<exists>d. c = Dt d)"
  shows "traverse date_astype_str xs = Inr (map date_str_cell xs)"
  using assms by (intro traverse_map) (auto simp: date_str_cell_def)

lemma to_datetime_date_column:
  assumes "\<forall>c \<in> set xs. c = Null \<or>
      (\<exists>d. c = Dt d \<and> valid_date d \<and> in_bounds (Timestamp d 0 0 0 0))"
  shows "and_then (to_datetime (map date_str_cell xs)) dt_date = Inr xs"
proof -
  let ?mid = "\<lambda>c. case c of Dt d \<Rightarrow> Ts (Timestamp d 0 0 0 0) | _ \<Rightarrow> Null"
  have "to_datetime (map date_str_cell xs) = Inr (map ?mid xs)"
  proof (rule to_datetime_map [where f = "(10, False)"])
    fix c assume "c \<in> set xs"
    with assms have "c = Null \<or>
        (\<exists>d. c = Dt d \<and> valid_date d \<and> in_bounds (Timestamp d 0 0 0 0))"
      by blast
    then show "(is_missing (date_str_cell c) \<and>
          (date_str_cell c = Null \<or> (\<exists>s. date_str_cell c = Str s)) \<and> ?mid c = Null) \<or>
        (\<exists>s t. date_str_cell c = Str s \<and> s \<notin> set nat_strings \<and> layout_of s = (10, False) \<and>
           parse_datetime s = Some (Some t) \<and> in_bounds t \<and> ?mid c = Ts t)"
    proof (elim disjE exE conjE)
      assume "c = Null"
      then show ?thesis by (simp add: date_str_cell_def nat_strings_def)
    next
      fix d assume "c = Dt d" "valid_date d" "in_bounds (Timestamp d 0 0 0 0)"
      then show ?thesis
        by (simp add: date_str_cell_def isoformat_not_missing layout_isoformat
            parse_datetime_isoformat)
    qed
  qed
  moreover have "traverse dt_cell (map ?mid xs) =
      Inr (map (\<lambda>c. case c of Dt d \<Rightarrow> Some (Timestamp d 0 0 0 0) | _ \<Rightarrow> None) xs)"
  proof -
    have "dt_cell (?mid c) = Inr (case c of Dt d \<Rightarrow> Some (Timestamp d 0 0 0 0) | _ \<Rightarrow> None)"
      for c by (cases c) simp_all
    then show ?thesis by (intro traverse_map_map) simp
  qed
  moreover have "map (\<lambda>t. case t of None \<Rightarrow> Null | Some t' \<Rightarrow> Dt (ts_date t'))
      (map (\<lambda>c. case c of Dt d \<Rightarrow> Some (Timestamp d 0 0 0 0) | _ \<Rightarrow> None) xs) = xs"
    using assms by (intro map_idI [THEN trans [OF map_map]]) (auto split: cell.splits)
  ultimately show ?thesis by (simp add: dt_date_def)
qed

text \<open>
  \<open>pd.to_datetime\<close> returns on a column of nulls and of texts of one form that parse
  to instants within the bounds.
\<close>

lemma to_datetime_returns:
  assumes "\<forall>c \<in> set raw. c = Null \<or>
      (\<exists>s t. c = Str s \<and> s \<notin> set nat_strings \<and> layout_of s = f \<and>
         parse_datetime s = Some (Some t) \<and> in_bounds t)"
  shows "\<exists>T. to_datetime raw = Inr T"
proof -
  let ?g = "\<lambda>c. case c of
      Str s \<Rightarrow> (case parse_datetime s of Some (Some t) \<Rightarrow> Ts t | _ \<Rightarrow> Null) | _ \<Rightarrow> Null"
  have "to_datetime (map (\<lambda>c. c) raw) = Inr (map ?g raw)"
  proof (rule to_datetime_map [where f = f])
    fix c assume "c \<in> set raw"
    with assms have "c = Null \<or>
      (\<exists>s t. c = Str s \<and> s \<notin> set nat_strings \<and> layout_of s = f \<and>
         parse_datetime s = Some (Some t) \<and> in_bounds t)" by blast
    then show "(is_missing c \<and> (c = Null \<or> (\<exists>s. c = Str s)) \<and> ?g c = Null) \<or>
      (\<exists>s t. c = Str s \<and> s \<notin> set nat_strings \<and> layout_of s = f \<and>
         parse_datetime s = Some (Some t) \<and> in_bounds t \<and> ?g c = Ts t)"
      by auto
  qed
  then show ?thesis by simp
qed

lemma whole_seconds_cell_id:
  "(\<forall>t. Ts t \<in> set xs \<longrightarrow> ts_nano t = 0) \<Longrightarrow> map whole_seconds_cell xs = xs"
  by (intro map_idI) (auto simp: whole_seconds_cell_def whole_seconds_id split: cell.splits)

section \<open>The columns of a projection\<close>

lemma getitems_columns: "getitems df cs = Inr df' \<Longrightarrow> map fst (cols df') = cs"
  by (auto simp: getitems_def Let_def comp_def split: if_splits)

lemma drop_duplicates_columns:
  "drop_duplicates df by = Inr df' \<Longrightarrow> map fst (cols df') = map fst (cols df)"
  by (auto simp: drop_duplicates_def and_then_Inr Let_def comp_def case_prod_unfold)

lemma enrich_raw_data_columns:
  "enrich_raw_data ts p cs = Inr df \<Longrightarrow> map fst (cols df) = cs"
  unfolding enrich_raw_data_def Let_def and_then_Inr
  by (auto dest!: drop_duplicates_columns getitems_columns)

section \<open>The transform\<close>

lemma to_datetime_cell_kind:
  "to_datetime_cell f x = Inr y \<Longrightarrow> dt_cell y = Inr (case y of Ts t \<Rightarrow> Some t | _ \<Rightarrow> None)"
  by (cases x) (auto simp: within_bounds_def split: if_splits option.splits)

lemma dt_cell_parsed:
  "to_datetime raw = Inr T \<Longrightarrow>
   traverse dt_cell T = Inr (map (\<lambda>y. case y of Ts t \<Rightarrow> Some t | _ \<Rightarrow> None) T)"
  unfolding to_datetime_def traverse_Inr_iff
  by (induction raw T rule: list_all2_induct) (auto dest: to_datetime_cell_kind)

lemma dt_date_parsed: "to_datetime raw = Inr T \<Longrightarrow> dt_date T = Inr (dates_of T)"
  by (auto simp: dt_date_def dt_cell_parsed dates_of_def split: cell.splits)

lemma DataFrame_equal_length:
  assumes "h \<noteq> []" "\<forall>(k, v) \<in> set h. length v = n"
  shows "DataFrame h = Inr \<lparr>index_len = n, cols = h\<rparr>"
proof (cases h)
  case Nil
  with assms show ?thesis by simp
next
  case (Cons kv rest)
  obtain k v where kv: "kv = (k, v)" by (cases kv)
  from assms(2) Cons kv have "length v = n" "list_all (\<lambda>(k', v'). length v' = length v) rest"
    by (auto simp: list_all_iff)
  with Cons kv show ?thesis by (simp add: DataFrame_def)
qed

lemma rows_of_one_column: "map (\<lambda>i. [T ! i]) [0..<length T] = map (\<lambda>x. [x]) T"
  by (rule nth_equalityI) simp_all

lemma drop_duplicates_time:
  assumes "map_of cs ''time'' = Some T" "length T = n"
  shows "drop_duplicates \<lparr>index_len = n, cols = cs\<rparr> [''time''] =
         Inr \<lparr>index_len = card (set T),
              cols = map (\<lambda>(c, v). (c, boolean_mask (map Not (duplicated T)) v)) cs\<rparr>"
proof -
  have "inj (\<lambda>x::cell. [x])" by (simp add: inj_def)
  then have "duplicated (map (\<lambda>x. [x]) T) = duplicated T" by (rule duplicated_map)
  then show ?thesis
    using assms count_not_duplicated [of T]
    by (simp add: drop_duplicates_def getitems_def frame_rows_def Let_def rows_of_one_column
        flip: assms(2))
qed

lemma getitem_setitem_same: "getitem (setitem df c v) c = Inr v"
  by (simp add: getitem_def setitem_def update_conv')

lemma enrich_raw_data_steps:
  assumes hourly: "payload ''hourly'' = Some (Columns h)"
    and len: "\<forall>(k, v) \<in> set h. length v = n"
    and time: "map_of h ''time'' = Some raw"
    and parse: "to_datetime raw = Inr T"
    and scalars: "payload_get payload ''latitude'' = Scalar lat"
      "payload_get payload ''longitude'' = Scalar lon"
      "payload_get payload ''timezone'' = Scalar tz"
  shows "enrich_raw_data now payload columns =
     and_then
       (getitems
         (setitem_scalar (setitem_scalar (setitem_scalar (setitem_scalar (setitem_scalar
            (setitem (setitem \<lparr>index_len = n, cols = h\<rparr> ''time'' T) ''date'' (dates_of T))
            ''latitude'' lat) ''longitude'' lon) ''timezone'' tz) ''city'' (Str CITY))
            ''execution_time'' (Ts now)) columns)
       (\<lambda>projected. drop_duplicates projected [''time''])"
proof -
  from time have "h \<noteq> []" by auto
  then have df0: "DataFrame h = Inr \<lparr>index_len = n, cols = h\<rparr>"
    using len by (rule DataFrame_equal_length)
  have s1: "payload_getitem payload ''hourly'' = Inr (Columns h)"
    using hourly by (simp add: payload_getitem_def)
  have s2: "DataFrame_of (Columns h) = Inr \<lparr>index_len = n, cols = h\<rparr>"
    using df0 by (simp add: DataFrame_of_def)
  have s3: "getitem \<lparr>index_len = n, cols = h\<rparr> ''time'' = Inr raw"
    using time by (simp add: getitem_def)
  have s4: "setitem_json df k (Scalar x) = Inr (setitem_scalar df k x)" for df k x
    by (simp add: setitem_json_def)
  show ?thesis
    unfolding enrich_raw_data_def Let_def
    by (simp add: s1 s2 s3 parse getitem_setitem_same dt_date_parsed [OF parse] s4 scalars)
qed

lemma parsed_length:
  assumes "\<forall>(k, v) \<in> set h. length v = n" "map_of h ''time'' = Some raw"
    "to_datetime raw = Inr T"
  shows "length T = n"
proof -
  from assms(1,2) have "length raw = n" by (auto dest: map_of_SomeD)
  with assms(3) show ?thesis by (simp add: to_datetime_def traverse_length)
qed

lemma enrich_raw_data_result:
  assumes hourly: "payload ''hourly'' = Some (Columns h)"
    and len: "\<forall>(k, v) \<in> set h. length v = n"
    and cols: "map_of h ''time'' = Some raw" "map_of h ''pm10'' = Some a"
      "map_of h ''pm2_5'' = Some b" "map_of h ''uv_index'' = Some c"
    and parse: "to_datetime raw = Inr T"
    and scalars: "payload_get payload ''latitude'' = Scalar lat"
      "payload_get payload ''longitude'' = Scalar lon"
      "payload_get payload ''timezone'' = Scalar tz"
  shows "enrich_raw_data now payload COLUMN_ORDER =
     Inr \<lparr>index_len = card (set T),
          cols = map (\<lambda>(c, v). (c, boolean_mask (map Not (duplicated T)) v))
            [(''time'', T), (''pm10'', a), (''pm2_5'', b), (''uv_index'', c),
             (''latitude'', replicate n lat), (''longitude'', replicate n lon),
             (''timezone'', replicate n tz), (''city'', replicate n (Str CITY)),
             (''date'', dates_of T), (''execution_time'', replicate n (Ts now))]\<rparr>"
proof -
  have lenT: "length T = n" using len cols(1) parse by (rule parsed_length)
  have proj: "getitems
     (setitem_scalar (setitem_scalar (setitem_scalar (setitem_scalar (setitem_scalar
        (setitem (setitem \<lparr>index_len = n, cols = h\<rparr> ''time'' T) ''date'' (dates_of T))
        ''latitude'' lat) ''longitude'' lon) ''timezone'' tz) ''city'' (Str CITY))
        ''execution_time'' (Ts now)) COLUMN_ORDER =
     Inr \<lparr>index_len = n,
          cols = [(''time'', T), (''pm10'', a), (''pm2_5'', b), (''uv_index'', c),
             (''latitude'', replicate n lat), (''longitude'', replicate n lon),
             (''timezone'', replicate n tz), (''city'', replicate n (Str CITY)),
             (''date'', dates_of T), (''execution_time'', replicate n (Ts now))]\<rparr>"
    using cols
    by (simp add: getitems_def setitem_def setitem_scalar_def update_conv' COLUMN_ORDER_def)
  show ?thesis
    unfolding enrich_raw_data_steps [OF hourly len cols(1) parse scalars]
    by (simp add: proj drop_duplicates_time lenT)
qed

lemma enrich_raw_data_missing:
  assumes hourly: "payload ''hourly'' = Some (Columns h)"
    and len: "\<forall>(k, v) \<in> set h. length v = n"
    and time: "map_of h ''time'' = Some raw"
    and parse: "to_datetime raw = Inr T"
    and scalars: "payload_get payload ''latitude'' = Scalar lat"
      "payload_get payload ''longitude'' = Scalar lon"
      "payload_get payload ''timezone'' = Scalar tz"
    and missing: "filter (\<lambda>c. map_of h c = None) [''pm10'', ''pm2_5'', ''uv_index''] \<noteq> []"
  shows "enrich_raw_data now payload COLUMN_ORDER =
     Inl (KeyError (filter (\<lambda>c. map_of h c = None) [''pm10'', ''pm2_5'', ''uv_index'']))"
proof -
  have "getitems
     (setitem_scalar (setitem_scalar (setitem_scalar (setitem_scalar (setitem_scalar
        (setitem (setitem \<lparr>index_len = n, cols = h\<rparr> ''time'' T) ''date'' (dates_of T))
        ''latitude'' lat) ''longitude'' lon) ''timezone'' tz) ''city'' (Str CITY))
        ''execution_time'' (Ts now)) COLUMN_ORDER =
     Inl (KeyError (filter (\<lambda>c. map_of h c = None) [''pm10'', ''pm2_5'', ''uv_index'']))"
    using missing
    by (cases "map_of h ''pm10''"; cases "map_of h ''pm2_5''"; cases "map_of h ''uv_index''")
       (simp_all add: getitems_def setitem_def setitem_scalar_def update_conv' COLUMN_ORDER_def
         Let_def)
  then show ?thesis
    unfolding enrich_raw_data_steps [OF hourly len time parse scalars] by simp
qed

lemma enrich_raw_data_no_time:
  assumes hourly: "payload ''hourly'' = Some (Columns h)"
    and len: "\<forall>(k, v) \<in> set h. length v = n"
    and time: "map_of h ''time'' = None"
  shows "enrich_raw_data now payload columns = Inl (KeyError [''time''])"
proof -
  have "\<exists>m. DataFrame h = Inr \<lparr>index_len = m, cols = h\<rparr>"
  proof (cases "h = []")
    case True
    then show ?thesis by (simp add: DataFrame_def)
  next
    case False
    then show ?thesis using len DataFrame_equal_length by blast
  qed
  then obtain m where "DataFrame h = Inr \<lparr>index_len = m, cols = h\<rparr>" ..
  with hourly time show ?thesis
    by (simp add: enrich_raw_data_def payload_getitem_def DataFrame_of_def getitem_def)
qed

text \<open>
  The \<open>time\<close> column is parsed before anything is projected: when \<open>pd.to_datetime\<close>
  raises, the transform raises that error, whatever else the payload lacks.
\<close>

lemma enrich_raw_data_unparsed:
  assumes hourly: "payload ''hourly'' = Some (Columns h)"
    and len: "\<forall>(k, v) \<in> set h. length v = n"
    and time: "map_of h ''time'' = Some raw"
    and parse: "to_datetime raw = Inl e"
  shows "enrich_raw_data now payload columns = Inl e"
proof -
  from time have "h \<noteq> []" by auto
  then have "DataFrame h = Inr \<lparr>index_len = n, cols = h\<rparr>"
    using len by (rule DataFrame_equal_length)
  with hourly time parse show ?thesis
    by (simp add: enrich_raw_data_def payload_getitem_def DataFrame_of_def getitem_def)
qed

lemma enrich_raw_data_mixed_forms:
  "enrich_raw_data test_clock mixed_payload COLUMN_ORDER =
     Inl (ValueError (Message ''time data does not match format''))"
proof -
  let ?h = "[(''time'', [Str ''2025-11-04T00:00'', Str ''2025-11-04T01:00:00'']),
         (''pm2_5'', [Num 5, Num 6]), (''uv_index'', [Num 0, Num 0.1])]"
  have "mixed_payload ''hourly'' = Some (Columns ?h)" by (simp add: mixed_payload_def)
  moreover have "\<forall>(k, v) \<in> set ?h. length v = 2" by simp
  moreover have "map_of ?h ''time'' = Some [Str ''2025-11-04T00:00'', Str ''2025-11-04T01:00:00'']"
    by simp
  ultimately show ?thesis
    using to_datetime_mixed_forms by (rule enrich_raw_data_unparsed)
qed

lemma length_dates_of: "length (dates_of T) = length T"
  by (simp add: dates_of_def)

lemma enrich_raw_data_batch:
  assumes "payload ''hourly'' = Some (Columns h)"
    and "\<forall>(k, v) \<in> set h. length v = n"
    and "map_of h ''time'' = Some raw" "map_of h ''pm10'' = Some a"
      "map_of h ''pm2_5'' = Some b" "map_of h ''uv_index'' = Some c"
    and "to_datetime raw = Inr T"
    and "payload_get payload ''latitude'' = Scalar lat"
      "payload_get payload ''longitude'' = Scalar lon"
      "payload_get payload ''timezone'' = Scalar tz"
  shows "enrich_raw_data now payload COLUMN_ORDER =
      Inr \<lparr>index_len = card (set T),
           cols =
             [(''time'', map ((!) T) (first_positions T)),
              (''pm10'', map ((!) a) (first_positions T)),
              (''pm2_5'', map ((!) b) (first_positions T)),
              (''uv_index'', map ((!) c) (first_positions T)),
              (''latitude'', replicate (card (set T)) lat),
              (''longitude'', replicate (card (set T)) lon),
              (''timezone'', replicate (card (set T)) tz),
              (''city'', replicate (card (set T)) (Str CITY)),
              (''date'', map ((!) (dates_of T)) (first_positions T)),
              (''execution_time'', replicate (card (set T)) (Ts now))]\<rparr>"
proof -
  have lenT: "length T = n" using assms(2,3,7) by (rule parsed_length)
  from assms(4,5,6) assms(2) have len: "length a = length T" "length b = length T" "length c = length T"
    unfolding lenT by (auto dest: map_of_SomeD)
  show ?thesis
    using enrich_raw_data_result [OF assms, of now]
    by (simp add: boolean_mask_first len length_dates_of positions_replicate lenT)
qed

text \<open>
  C1 (amended). For every payload whose \<open>hourly\<close> block holds \<open>time\<close>, \<open>pm10\<close>,
  \<open>pm2_5\<close> and \<open>uv_index\<close> among its equal-length sequences, whose \<open>time\<close> column
  \<open>pd.to_datetime\<close> parses (as it does nulls and texts that are all of one of the
  forms \<open>YYYY-MM-DD\<close>, \<open>YYYY-MM-DDTHH:MM\<close>, \<open>YYYY-MM-DDTHH:MM:SS\<close>, the last two
  with or without a final \<open>Z\<close>, within the bounds of a timestamp) and whose
  \<open>latitude\<close>, \<open>longitude\<close> and \<open>timezone\<close> are scalars or absent, the transform
  returns a batch; its row count is the number of distinct parsed \<open>time\<close> values,
  each occurring once, and row \<open>j\<close> of the batch is the source row at the \<open>j\<close>-th
  position of a first occurrence, in source order.
\<close>

theorem enrich_raw_data_first_occurrences:
  assumes "payload ''hourly'' = Some (Columns h)"
    and "\<forall>(k, v) \<in> set h. length v = n"
    and "map_of h ''time'' = Some raw" "map_of h ''pm10'' = Some a"
      "map_of h ''pm2_5'' = Some b" "map_of h ''uv_index'' = Some c"
    and "to_datetime raw = Inr T"
    and "payload_get payload ''latitude'' = Scalar lat"
      "payload_get payload ''longitude'' = Scalar lon"
      "payload_get payload ''timezone'' = Scalar tz"
  shows "\<exists>df. enrich_raw_data now payload COLUMN_ORDER = Inr df \<and>
           index_len df = card (set T) \<and>
           cols df =
             [(''time'', map ((!) T) (first_positions T)),
              (''pm10'', map ((!) a) (first_positions T)),
              (''pm2_5'', map ((!) b) (first_positions T)),
              (''uv_index'', map ((!) c) (first_positions T)),
              (''latitude'', replicate (card (set T)) lat),
              (''longitude'', replicate (card (set T)) lon),
              (''timezone'', replicate (card (set T)) tz),
              (''city'', replicate (card (set T)) (Str CITY)),
              (''date'', map ((!) (dates_of T)) (first_positions T)),
              (''execution_time'', replicate (card (set T)) (Ts now))] \<and>
           length (first_positions T) = card (set T) \<and>
           distinct (map ((!) T) (first_positions T)) \<and>
           set (map ((!) T) (first_positions T)) = set T \<and>
           sorted (first_positions T) \<and>
           (\<forall>i. i \<in> set (first_positions T) \<longleftrightarrow> i < length T \<and> (\<forall>j<i. T ! j \<noteq> T ! i))"
proof -
  have sorted: "sorted (first_positions T)"
    by (simp add: first_positions_def sorted_wrt_filter)
  show ?thesis
    using enrich_raw_data_batch [OF assms, of now] kept_times [of T] sorted
      first_positions_first [of _ T]
    by (simp add: length_first_positions)
qed

text \<open>
  Equal lengths alone are not enough: an \<open>hourly\<close> block of equal-length sequences
  that lacks \<open>pm2_5\<close> and \<open>uv_index\<close> yields no batch.
\<close>

theorem enrich_raw_data_partial_payload:
  "enrich_raw_data test_clock partial_payload COLUMN_ORDER = Inl (KeyError [''pm2_5'', ''uv_index''])"
  by (simp add: enrich_raw_data_def partial_payload_def payload_getitem_def payload_get_def
      DataFrame_of_def setitem_json_def frame_defs to_datetime_test CITY_def
      COLUMN_ORDER_def Let_def cong: and_then_weak_cong)

lemma first_positions_test: "first_positions [x, x, y] = (if x = y then [0] else [0, 2])"
  by (simp add: first_positions_def upt_rec [of _ "numeral n" for n] upt_rec [of _ "Suc n" for n])

theorem enrich_raw_data_first_occurrences_witness:
  "enrich_raw_data test_clock test_payload COLUMN_ORDER = Inr test_frame \<and>
   index_len test_frame =
     card (set [Ts (Timestamp (Date 2025 11 4) 0 0 0 0), Ts (Timestamp (Date 2025 11 4) 0 0 0 0),
                Ts (Timestamp (Date 2025 11 4) 1 0 0 0)]) \<and>
   map_of (cols test_frame) ''pm10'' =
     Some (map ((!) [Num 10, Num 10, Num 12])
       (first_positions [Ts (Timestamp (Date 2025 11 4) 0 0 0 0),
          Ts (Timestamp (Date 2025 11 4) 0 0 0 0), Ts (Timestamp (Date 2025 11 4) 1 0 0 0)])) \<and>
   first_positions [Ts (Timestamp (Date 2025 11 4) 0 0 0 0),
          Ts (Timestamp (Date 2025 11 4) 0 0 0 0), Ts (Timestamp (Date 2025 11 4) 1 0 0 0)] = [0, 2]"
proof -
  let ?T = "[Ts (Timestamp (Date 2025 11 4) 0 0 0 0), Ts (Timestamp (Date 2025 11 4) 0 0 0 0),
             Ts (Timestamp (Date 2025 11 4) 1 0 0 0)]"
  let ?h = "[(''time'', [Str ''2025-11-04T00:00'', Str ''2025-11-04T00:00'', Str ''2025-11-04T01:00'']),
         (''pm10'', [Num 10, Num 10, Num 12]),
         (''pm2_5'', [Num 5, Num 5, Num 6]),
         (''uv_index'', [Num 0, Num 0, Num 0.1])]"
  have h1: "test_payload ''hourly'' = Some (Columns ?h)" by (simp add: test_payload_def)
  have h2: "\<forall>(k, v) \<in> set ?h. length v = 3" by simp
  have h3: "map_of ?h ''time'' = Some [Str ''2025-11-04T00:00'', Str ''2025-11-04T00:00'', Str ''2025-11-04T01:00'']"
    "map_of ?h ''pm10'' = Some [Num 10, Num 10, Num 12]"
    "map_of ?h ''pm2_5'' = Some [Num 5, Num 5, Num 6]"
    "map_of ?h ''uv_index'' = Some [Num 0, Num 0, Num 0.1]"
    by simp_all
  have h4: "payload_get test_payload ''latitude'' = Scalar (Num 48.8566)"
    "payload_get test_payload ''longitude'' = Scalar (Num 2.3522)"
    "payload_get test_payload ''timezone'' = Scalar (Str ''Europe/Paris'')"
    by (simp_all add: payload_get_def test_payload_def)
  from enrich_raw_data_first_occurrences [OF h1 h2 h3 to_datetime_test h4, of test_clock]
  obtain df where df: "enrich_raw_data test_clock test_payload COLUMN_ORDER = Inr df"
    "index_len df = card (set ?T)"
    "map_of (cols df) ''pm10'' = Some (map ((!) [Num 10, Num 10, Num 12]) (first_positions ?T))"
    by auto
  from df(1) have "df = test_frame" by (simp add: enrich_test_payload)
  with df show ?thesis by (simp add: enrich_test_payload first_positions_test)
qed

text \<open>
  C6 (amended). Whenever the transform returns, its frame has exactly the canonical
  columns in their fixed order. It fails with \<open>KeyError\<close> when \<open>time\<close> is missing from
  the \<open>hourly\<close> block and, \<open>time\<close> being there and parsed by \<open>pd.to_datetime\<close>, when
  one of \<open>pm10\<close>, \<open>pm2_5\<close>, \<open>uv_index\<close> is missing from the enriched data, naming the
  missing ones; when \<open>pd.to_datetime\<close> raises on the \<open>time\<close> column, the projection
  is not reached and the transform raises that error. A field of the \<open>hourly\<close> block
  outside the canonical set is not refused: the projection drops it, and the result
  is that of the payload without it.
\<close>

theorem enrich_raw_data_projection:
  "(\<forall>now payload df. enrich_raw_data now payload COLUMN_ORDER = Inr df \<longrightarrow>
       map fst (cols df) = COLUMN_ORDER) \<and>
   (\<forall>now payload h n. payload ''hourly'' = Some (Columns h) \<and> (\<forall>(k, v) \<in> set h. length v = n) \<and>
       map_of h ''time'' = None \<longrightarrow>
       enrich_raw_data now payload COLUMN_ORDER = Inl (KeyError [''time''])) \<and>
   (\<forall>now payload h n raw T lat lon tz.
       payload ''hourly'' = Some (Columns h) \<and> (\<forall>(k, v) \<in> set h. length v = n) \<and>
       map_of h ''time'' = Some raw \<and> to_datetime raw = Inr T \<and>
       payload_get payload ''latitude'' = Scalar lat \<and>
       payload_get payload ''longitude'' = Scalar lon \<and>
       payload_get payload ''timezone'' = Scalar tz \<longrightarrow>
       (let missing = filter (\<lambda>c. map_of h c = None) [''pm10'', ''pm2_5'', ''uv_index'']
        in if missing \<noteq> [] then enrich_raw_data now payload COLUMN_ORDER = Inl (KeyError missing)
           else \<exists>df. enrich_raw_data now payload COLUMN_ORDER = Inr df \<and>
                  map fst (cols df) = COLUMN_ORDER \<and>
                  enrich_raw_data now
                    (payload(''hourly'' \<mapsto> Columns (filter (\<lambda>(k, v). k \<in> set COLUMN_ORDER) h)))
                    COLUMN_ORDER = Inr df)) \<and>
   (\<forall>now payload h n raw e.
       payload ''hourly'' = Some (Columns h) \<and> (\<forall>(k, v) \<in> set h. length v = n) \<and>
       map_of h ''time'' = Some raw \<and> to_datetime raw = Inl e \<and> e \<noteq> NotModelled \<longrightarrow>
       enrich_raw_data now payload COLUMN_ORDER = Inl e)"
proof (intro conjI allI impI)
  fix now payload df
  assume "enrich_raw_data now payload COLUMN_ORDER = Inr df"
  then show "map fst (cols df) = COLUMN_ORDER" by (rule enrich_raw_data_columns)
next
  fix now :: timestamp and payload :: payload and h n raw e
  assume "payload ''hourly'' = Some (Columns h) \<and> (\<forall>(k, v) \<in> set h. length v = n) \<and>
       map_of h ''time'' = Some raw \<and> to_datetime raw = Inl e \<and> e \<noteq> NotModelled"
  then show "enrich_raw_data now payload COLUMN_ORDER = Inl e"
    using enrich_raw_data_unparsed by blast
next
  fix now :: timestamp and payload :: payload and h n
  assume "payload ''hourly'' = Some (Columns h) \<and> (\<forall>(k, v) \<in> set h. length v = n) \<and>
       map_of h ''time'' = None"
  then show "enrich_raw_data now payload COLUMN_ORDER = Inl (KeyError [''time''])"
    using enrich_raw_data_no_time by blast
next
  fix now :: timestamp and payload :: payload and h n raw T lat lon tz
  assume a: "payload ''hourly'' = Some (Columns h) \<and> (\<forall>(k, v) \<in> set h. length v = n) \<and>
       map_of h ''time'' = Some raw \<and> to_datetime raw = Inr T \<and>
       payload_get payload ''latitude'' = Scalar lat \<and>
       payload_get payload ''longitude'' = Scalar lon \<and>
       payload_get payload ''timezone'' = Scalar tz"
  let ?missing = "filter (\<lambda>c. map_of h c = None) [''pm10'', ''pm2_5'', ''uv_index'']"
  let ?h' = "filter (\<lambda>(k, v). k \<in> set COLUMN_ORDER) h"
  let ?payload' = "payload(''hourly'' \<mapsto> Columns ?h')"
  have miss: "enrich_raw_data now payload COLUMN_ORDER = Inl (KeyError ?missing)" if "?missing \<noteq> []"
    using a that enrich_raw_data_missing [of payload h n raw T lat lon tz now] by blast
  have ok: "\<exists>df. enrich_raw_data now payload COLUMN_ORDER = Inr df \<and>
                  map fst (cols df) = COLUMN_ORDER \<and>
                  enrich_raw_data now ?payload' COLUMN_ORDER = Inr df" if "?missing = []"
  proof -
    from that obtain x y z where
      xyz: "map_of h ''pm10'' = Some x" "map_of h ''pm2_5'' = Some y" "map_of h ''uv_index'' = Some z"
      by (auto split: if_splits)
    have keep: "map_of ?h' k = Some v" if "map_of h k = Some v" "k \<in> set COLUMN_ORDER" for k v
      using that by (simp add: map_of_filter_in)
    have p1: "?payload' ''hourly'' = Some (Columns ?h')" by simp
    have p2: "\<forall>(k, v) \<in> set ?h'. length v = n" using a by auto
    have p3: "payload_get ?payload' ''latitude'' = Scalar lat"
      "payload_get ?payload' ''longitude'' = Scalar lon"
      "payload_get ?payload' ''timezone'' = Scalar tz"
      using a by (simp_all add: payload_get_def)
    have r1: "enrich_raw_data now payload COLUMN_ORDER = Inr \<lparr>index_len = card (set T),
          cols = map (\<lambda>(c, v). (c, boolean_mask (map Not (duplicated T)) v))
            [(''time'', T), (''pm10'', x), (''pm2_5'', y), (''uv_index'', z),
             (''latitude'', replicate n lat), (''longitude'', replicate n lon),
             (''timezone'', replicate n tz), (''city'', replicate n (Str CITY)),
             (''date'', dates_of T), (''execution_time'', replicate n (Ts now))]\<rparr>"
      using a xyz by (intro enrich_raw_data_result) auto
    have r2: "enrich_raw_data now ?payload' COLUMN_ORDER = Inr \<lparr>index_len = card (set T),
          cols = map (\<lambda>(c, v). (c, boolean_mask (map Not (duplicated T)) v))
            [(''time'', T), (''pm10'', x), (''pm2_5'', y), (''uv_index'', z),
             (''latitude'', replicate n lat), (''longitude'', replicate n lon),
             (''timezone'', replicate n tz), (''city'', replicate n (Str CITY)),
             (''date'', dates_of T), (''execution_time'', replicate n (Ts now))]\<rparr>"
    proof -
      have mem: "''time'' \<in> set COLUMN_ORDER" "''pm10'' \<in> set COLUMN_ORDER"
        "''pm2_5'' \<in> set COLUMN_ORDER" "''uv_index'' \<in> set COLUMN_ORDER"
        by (simp_all add: COLUMN_ORDER_def)
      from a have t: "map_of h ''time'' = Some raw" by simp
      note k = keep [OF t mem(1)] keep [OF xyz(1) mem(2)] keep [OF xyz(2) mem(3)]
        keep [OF xyz(3) mem(4)]
      from a have "to_datetime raw = Inr T" by simp
      from enrich_raw_data_result [OF p1 p2 k this p3] show ?thesis .
    qed
    from r1 r2 show ?thesis by (simp add: COLUMN_ORDER_def)
  qed
  from miss ok show "let missing = ?missing
        in if missing \<noteq> [] then enrich_raw_data now payload COLUMN_ORDER = Inl (KeyError missing)
           else \<exists>df. enrich_raw_data now payload COLUMN_ORDER = Inr df \<and>
                  map fst (cols df) = COLUMN_ORDER \<and>
                  enrich_raw_data now ?payload' COLUMN_ORDER = Inr df"
    unfolding Let_def by (cases "?missing = []") simp_all
qed

text \<open>
  A field outside the canonical ones is not rejected: the payload with the extra
  field \<open>ozone\<close> is transformed, to the batch of the payload without it.
\<close>

theorem enrich_raw_data_unknown_field:
  "enrich_raw_data test_clock ozone_payload COLUMN_ORDER = Inr test_frame"
  by (simp add: enrich_raw_data_def ozone_payload_def payload_getitem_def payload_get_def
      DataFrame_of_def setitem_json_def frame_defs to_datetime_test CITY_def
      COLUMN_ORDER_def test_frame_def Let_def cong: and_then_weak_cong)

theorem enrich_raw_data_projection_witness:
  "enrich_raw_data test_clock partial_payload COLUMN_ORDER =
     Inl (KeyError [''pm2_5'', ''uv_index'']) \<and>
   (\<exists>df. enrich_raw_data test_clock ozone_payload COLUMN_ORDER = Inr df \<and>
      map fst (cols df) = COLUMN_ORDER) \<and>
   enrich_raw_data test_clock mixed_payload COLUMN_ORDER =
     Inl (ValueError (Message ''time data does not match format''))"
proof -
  let ?mixed = "[Str ''2025-11-04T00:00'', Str ''2025-11-04T01:00:00'']"
  let ?m = "[(''time'', ?mixed), (''pm2_5'', [Num 5, Num 6]), (''uv_index'', [Num 0, Num 0.1])]"
  note fourth = enrich_raw_data_projection [THEN conjunct2, THEN conjunct2, THEN conjunct2, rule_format]
  have "mixed_payload ''hourly'' = Some (Columns ?m) \<and> (\<forall>(k, v) \<in> set ?m. length v = 2) \<and>
       map_of ?m ''time'' = Some ?mixed \<and>
       to_datetime ?mixed = Inl (ValueError (Message ''time data does not match format'')) \<and>
       ValueError (Message ''time data does not match format'') \<noteq> NotModelled"
    by (simp add: mixed_payload_def to_datetime_mixed_forms)
  from fourth [where payload = mixed_payload and now = test_clock, OF this]
  have m: "enrich_raw_data test_clock mixed_payload COLUMN_ORDER =
     Inl (ValueError (Message ''time data does not match format''))" .
  let ?raw = "[Str ''2025-11-04T00:00'', Str ''2025-11-04T00:00'', Str ''2025-11-04T01:00'']"
  let ?T = "[Ts (Timestamp (Date 2025 11 4) 0 0 0 0), Ts (Timestamp (Date 2025 11 4) 0 0 0 0),
             Ts (Timestamp (Date 2025 11 4) 1 0 0 0)]"
  let ?h = "[(''time'', ?raw), (''pm10'', [Num 10, Num 10, Num 12])]"
  let ?g = "[(''time'', ?raw), (''pm10'', [Num 10, Num 10, Num 12]),
         (''pm2_5'', [Num 5, Num 5, Num 6]), (''uv_index'', [Num 0, Num 0, Num 0.1]),
         (''ozone'', [Num 40, Num 40, Num 41])]"
  note third = enrich_raw_data_projection [THEN conjunct2, THEN conjunct2, THEN conjunct1, rule_format]
  have "partial_payload ''hourly'' = Some (Columns ?h) \<and> (\<forall>(k, v) \<in> set ?h. length v = 3) \<and>
       map_of ?h ''time'' = Some ?raw \<and> to_datetime ?raw = Inr ?T \<and>
       payload_get partial_payload ''latitude'' = Scalar (Num 48.8566) \<and>
       payload_get partial_payload ''longitude'' = Scalar (Num 2.3522) \<and>
       payload_get partial_payload ''timezone'' = Scalar (Str ''Europe/Paris'')"
    by (simp add: partial_payload_def payload_get_def to_datetime_test)
  from third [OF this, of test_clock]
  have a: "enrich_raw_data test_clock partial_payload COLUMN_ORDER =
     Inl (KeyError [''pm2_5'', ''uv_index''])"
    by simp
  have "ozone_payload ''hourly'' = Some (Columns ?g) \<and> (\<forall>(k, v) \<in> set ?g. length v = 3) \<and>
       map_of ?g ''time'' = Some ?raw \<and> to_datetime ?raw = Inr ?T \<and>
       payload_get ozone_payload ''latitude'' = Scalar (Num 48.8566) \<and>
       payload_get ozone_payload ''longitude'' = Scalar (Num 2.3522) \<and>
       payload_get ozone_payload ''timezone'' = Scalar (Str ''Europe/Paris'')"
    by (simp add: ozone_payload_def payload_get_def to_datetime_test)
  from third [OF this, of test_clock]
  have "\<exists>df. enrich_raw_data test_clock ozone_payload COLUMN_ORDER = Inr df \<and>
      map fst (cols df) = COLUMN_ORDER"
    by (simp add: Let_def) blast
  with a m show ?thesis by simp
qed

section \<open>The upsert loader\<close>

lemma keep_last_times: "time ` set (keep_last new) = time ` set new"
  by (induction new) auto

lemma keep_last_subset: "set (keep_last new) \<subseteq> set new"
  by (induction new) auto

lemma keep_last_distinct: "distinct (map time (keep_last new))"
proof (induction new)
  case Nil
  then show ?case by simp
next
  case (Cons r rs)
  have "time r \<notin> time ` set rs \<Longrightarrow> time r \<notin> time ` set (keep_last rs)"
    by (simp add: keep_last_times)
  with Cons show ?case by auto
qed

lemma keep_last_id: "distinct (map time new) \<Longrightarrow> keep_last new = new"
  by (induction new) auto

lemma length_keep_last: "length (keep_last new) = card (time ` set new)"
proof -
  have "card (set (map time (keep_last new))) = length (map time (keep_last new))"
    by (rule distinct_card) (rule keep_last_distinct)
  then show ?thesis by (simp add: keep_last_times)
qed

lemma filter_singleton:
  "distinct (map f xs) \<Longrightarrow> k \<in> f ` set xs \<Longrightarrow> \<exists>x \<in> set xs. filter (\<lambda>y. f y = k) xs = [x] \<and> f x = k"
proof (induction xs)
  case Nil
  then show ?case by simp
next
  case (Cons a xs)
  show ?case
  proof (cases "f a = k")
    case True
    with Cons.prems have "filter (\<lambda>y. f y = k) xs = []"
      by (force simp: filter_empty_conv image_iff)
    with True show ?thesis by simp
  next
    case False
    with Cons show ?thesis by auto
  qed
qed

lemma insert_or_replace_Inr:
  "insert_or_replace eng stored new = Inr s1 \<Longrightarrow>
   s1 = filter (\<lambda>r. time r \<notin> time ` set new) stored @ keep_last new"
  by (simp add: insert_or_replace_def Let_def keep_last_times split: if_splits)

lemma insert_or_replace_again:
  assumes "insert_or_replace eng stored new = Inr s1"
  shows "insert_or_replace eng s1 new = Inr s1"
proof -
  have s1: "s1 = filter (\<lambda>r. time r \<notin> time ` set new) stored @ keep_last new"
    using assms by (rule insert_or_replace_Inr)
  have ok: "\<not> (eng = RejectsDuplicates \<and> \<not> distinct (map time new))"
    using assms by (auto simp: insert_or_replace_def split: if_splits)
  have "filter (\<lambda>r. time r \<notin> time ` set new) (keep_last new) = []"
    using keep_last_subset [of new] by (auto simp: filter_empty_conv)
  then have "filter (\<lambda>r. time r \<notin> time ` set new) s1 = filter (\<lambda>r. time r \<notin> time ` set new) stored"
    by (simp add: s1)
  with ok show ?thesis
    by (simp add: insert_or_replace_def Let_def keep_last_times s1)
qed

lemma load_dataframe_Inr:
  "load_dataframe eng db df cs = Inr (db1, n) \<longleftrightarrow>
     (\<exists>p stored new stored1. getitems df cs = Inr p \<and> db = Some stored \<and>
        traverse bind_row (frame_rows p) = Inr new \<and>
        insert_or_replace eng stored new = Inr stored1 \<and> db1 = Some stored1 \<and> n = length stored1)"
  by (auto simp: load_dataframe_def and_then_Inr Let_def split: option.splits)

text \<open>The sample frame, loaded.\<close>

lemmas bind_defs =
  bind_row_def air_quality_table_columns_def as_real_def as_string_def as_date_def
  as_timestamp_def

lemma getitems_test_frame: "getitems test_frame COLUMN_ORDER = Inr test_frame"
  by (simp add: getitems_def test_frame_def COLUMN_ORDER_def)

lemma bind_test_frame: "traverse bind_row (frame_rows test_frame) = Inr test_rows"
  by (simp add: frame_rows_def test_frame_def test_rows_def bind_defs upt_rec [of _ "numeral n" for n]
      cong: and_then_weak_cong)

lemma load_test_frame:
  "load_dataframe eng (Some sample_table) test_frame COLUMN_ORDER =
     Inr (Some ([sample_row 5 3, sample_row 7 3] @ test_rows), 4)"
  by (simp add: load_dataframe_def getitems_test_frame bind_test_frame insert_or_replace_def
      sample_table_def test_rows_def sample_row_def Let_def)

text \<open>
  C7. Whenever \<open>load_dataframe\<close> returns, the number it returns is the row count of
  the table after the upsert: the stored rows whose \<open>time\<close> is not in the batch plus
  one row for each distinct \<open>time\<close> of the batch; it is not the size of the batch.
\<close>

theorem load_dataframe_row_count:
  assumes "load_dataframe eng db df COLUMN_ORDER = Inr (db1, n)"
  shows "\<exists>stored stored1 p new.
           db = Some stored \<and> db1 = Some stored1 \<and> n = length stored1 \<and>
           getitems df COLUMN_ORDER = Inr p \<and> traverse bind_row (frame_rows p) = Inr new \<and>
           n = length (filter (\<lambda>r. time r \<notin> time ` set new) stored) + card (time ` set new)"
proof -
  from assms obtain p stored new stored1 where
    h: "getitems df COLUMN_ORDER = Inr p" "db = Some stored"
       "traverse bind_row (frame_rows p) = Inr new"
       "insert_or_replace eng stored new = Inr stored1" "db1 = Some stored1" "n = length stored1"
    unfolding load_dataframe_Inr by blast
  from h(4) have "stored1 = filter (\<lambda>r. time r \<notin> time ` set new) stored @ keep_last new"
    by (rule insert_or_replace_Inr)
  then have "length stored1 =
      length (filter (\<lambda>r. time r \<notin> time ` set new) stored) + card (time ` set new)"
    by (simp add: length_keep_last)
  with h show ?thesis by blast
qed

theorem load_dataframe_row_count_witness:
  "load_dataframe LastRowWins (Some sample_table) test_frame COLUMN_ORDER =
     Inr (Some ([sample_row 5 3, sample_row 7 3] @ test_rows), 4) \<and>
   index_len test_frame = 2 \<and>
   (4::nat) = length (filter (\<lambda>r. time r \<notin> time ` set test_rows) sample_table) +
       card (time ` set test_rows)"
proof -
  have a: "load_dataframe LastRowWins (Some sample_table) test_frame COLUMN_ORDER =
     Inr (Some ([sample_row 5 3, sample_row 7 3] @ test_rows), 4)"
    by (rule load_test_frame)
  from load_dataframe_row_count [OF a] obtain p new where
    "getitems test_frame COLUMN_ORDER = Inr p" "traverse bind_row (frame_rows p) = Inr new"
    "(4::nat) = length (filter (\<lambda>r. time r \<notin> time ` set new) sample_table) + card (time ` set new)"
    by auto
  then have "(4::nat) = length (filter (\<lambda>r. time r \<notin> time ` set test_rows) sample_table) +
       card (time ` set test_rows)"
    by (simp add: getitems_test_frame bind_test_frame)
  with a show ?thesis by (simp add: test_frame_def)
qed

text \<open>
  C2. Loading a batch a second time returns the same row count and leaves the table
  exactly as the first load left it. After a load, each \<open>time\<close> of the batch is the
  key of exactly one stored row, a row of the batch (an existing row with that
  \<open>time\<close> has been replaced, none was added beside it), the stored rows with other
  keys are untouched, and a unique key stays unique. (When the load raises, the
  table is as it was, so a second attempt starts from the same state.)
\<close>

theorem load_dataframe_idempotent:
  assumes "load_dataframe eng db df COLUMN_ORDER = Inr (db1, n1)"
  shows "load_dataframe eng db1 df COLUMN_ORDER = Inr (db1, n1) \<and>
         (\<exists>stored stored1 p new.
            db = Some stored \<and> db1 = Some stored1 \<and>
            getitems df COLUMN_ORDER = Inr p \<and> traverse bind_row (frame_rows p) = Inr new \<and>
            (\<forall>r \<in> set new. \<exists>r' \<in> set new.
                time r' = time r \<and> filter (\<lambda>x. time x = time r) stored1 = [r']) \<and>
            filter (\<lambda>x. time x \<notin> time ` set new) stored1 =
              filter (\<lambda>x. time x \<notin> time ` set new) stored \<and>
            (distinct (map time stored) \<longrightarrow> distinct (map time stored1)))"
proof -
  from assms obtain p stored new stored1 where
    h: "getitems df COLUMN_ORDER = Inr p" "db = Some stored"
       "traverse bind_row (frame_rows p) = Inr new"
       "insert_or_replace eng stored new = Inr stored1" "db1 = Some stored1" "n1 = length stored1"
    unfolding load_dataframe_Inr by blast
  have again: "insert_or_replace eng stored1 new = Inr stored1"
    using h(4) by (rule insert_or_replace_again)
  have first: "load_dataframe eng db1 df COLUMN_ORDER = Inr (db1, n1)"
    unfolding load_dataframe_Inr using h again by blast
  have s1: "stored1 = filter (\<lambda>r. time r \<notin> time ` set new) stored @ keep_last new"
    using h(4) by (rule insert_or_replace_Inr)
  have rest: "filter (\<lambda>x. time x \<notin> time ` set new) stored1 =
              filter (\<lambda>x. time x \<notin> time ` set new) stored"
  proof -
    have "filter (\<lambda>r. time r \<notin> time ` set new) (keep_last new) = []"
      using keep_last_subset [of new] by (auto simp: filter_empty_conv)
    then show ?thesis by (simp add: s1)
  qed
  have one: "\<exists>r' \<in> set new. time r' = time r \<and> filter (\<lambda>x. time x = time r) stored1 = [r']"
    if "r \<in> set new" for r
  proof -
    from that have "time r \<in> time ` set (keep_last new)" by (simp add: keep_last_times)
    with keep_last_distinct [of new] obtain x where
      x: "x \<in> set (keep_last new)" "filter (\<lambda>y. time y = time r) (keep_last new) = [x]" "time x = time r"
      using filter_singleton [of time "keep_last new" "time r"] by blast
    have "filter (\<lambda>y. time y = time r) (filter (\<lambda>r. time r \<notin> time ` set new) stored) = []"
      using that by (auto simp: filter_empty_conv)
    with x have "filter (\<lambda>y. time y = time r) stored1 = [x]" by (simp add: s1)
    moreover have "x \<in> set new" using x(1) keep_last_subset by blast
    ultimately show ?thesis using x(3) by blast
  qed
  have dist: "distinct (map time stored1)" if "distinct (map time stored)"
  proof -
    have "distinct (map time (filter (\<lambda>r. time r \<notin> time ` set new) stored))"
      using that by (simp add: distinct_map_filter)
    moreover have "time ` set (filter (\<lambda>r. time r \<notin> time ` set new) stored) \<inter>
                   time ` set (keep_last new) = {}"
      by (auto simp: keep_last_times)
    ultimately show ?thesis using keep_last_distinct [of new] by (simp add: s1)
  qed
  from first h one rest dist show ?thesis by blast
qed

theorem load_dataframe_idempotent_witness:
  "load_dataframe RejectsDuplicates (Some sample_table) test_frame COLUMN_ORDER =
     Inr (Some ([sample_row 5 3, sample_row 7 3] @ test_rows), 4) \<and>
   load_dataframe RejectsDuplicates (Some ([sample_row 5 3, sample_row 7 3] @ test_rows))
     test_frame COLUMN_ORDER =
     Inr (Some ([sample_row 5 3, sample_row 7 3] @ test_rows), 4)"
proof -
  have a: "load_dataframe RejectsDuplicates (Some sample_table) test_frame COLUMN_ORDER =
     Inr (Some ([sample_row 5 3, sample_row 7 3] @ test_rows), 4)"
    by (rule load_test_frame)
  from load_dataframe_idempotent [OF a] a show ?thesis by blast
qed

section \<open>A payload without a top-level key\<close>

lemma as_timestamp_Some: "as_timestamp (Some b) = Some t \<longleftrightarrow> b = Ts t"
  by (cases b) (simp_all add: as_timestamp_def)

lemma bind_row_Inr:
  assumes "bind_row [c0, c1, c2, c3, c4, c5, c6, c7, c8, c9] = Inr r"
  shows "\<exists>v0 v1 v2 v3 v4 v5 v6 v7 v8 v9 t.
           cast TIMESTAMPTZ c0 = Inr v0 \<and> cast DOUBLE c1 = Inr v1 \<and> cast DOUBLE c2 = Inr v2 \<and>
           cast DOUBLE c3 = Inr v3 \<and> cast DOUBLE c4 = Inr v4 \<and> cast DOUBLE c5 = Inr v5 \<and>
           cast VARCHAR c6 = Inr v6 \<and> cast VARCHAR c7 = Inr v7 \<and> cast DATE c8 = Inr v8 \<and>
           cast TIMESTAMP c9 = Inr v9 \<and> v0 = Ts t \<and>
           r = \<lparr>time = t, pm10 = as_real (Some v1), pm2_5 = as_real (Some v2),
                uv_index = as_real (Some v3), latitude = as_real (Some v4),
                longitude = as_real (Some v5), timezone = as_string (Some v6),
                city = as_string (Some v7), date = as_date (Some v8),
                execution_time = as_timestamp (Some v9)\<rparr>"
  using assms
  by (clarsimp simp: bind_row_def air_quality_table_columns_def and_then_Inr Let_def
      as_timestamp_Some split: option.splits)

lemma bind_row_nulls:
  assumes "bind_row [c0, c1, c2, c3, c4, c5, c6, c7, c8, c9] = Inr r"
  shows "(c4 = Null \<longrightarrow> is_null ''latitude'' r) \<and> (c5 = Null \<longrightarrow> is_null ''longitude'' r) \<and>
         (c6 = Null \<longrightarrow> is_null ''timezone'' r)"
proof -
  from bind_row_Inr [OF assms] obtain v4 v5 v6 where
    "cast DOUBLE c4 = Inr v4" "cast DOUBLE c5 = Inr v5" "cast VARCHAR c6 = Inr v6"
    "latitude r = as_real (Some v4)" "longitude r = as_real (Some v5)"
    "timezone r = as_string (Some v6)"
    by auto
  then show ?thesis
    by (auto simp: is_null_def as_real_def as_string_def)
qed

lemma keep_last_nonempty:
  assumes "new \<noteq> []"
  shows "keep_last new \<noteq> []"
proof
  assume "keep_last new = []"
  then have "card (time ` set new) = 0" using length_keep_last [of new] by simp
  then have "set new = {}" by simp
  with assms show False by simp
qed

lemma check_not_nulls_detects:
  assumes "r \<in> set rows" "is_null key r" "key \<in> set critical_cols"
  shows "\<exists>k>0. check_not_nulls (Some rows) = Inl (ValueError (NullsDetected k))"
proof -
  have "list_ex (\<lambda>col. is_null col r) critical_cols"
    using assms(2,3) by (auto simp: list_ex_iff)
  with assms(1) have "filter (\<lambda>r. list_ex (\<lambda>col. is_null col r) critical_cols) rows \<noteq> []"
    by (auto simp: filter_empty_conv)
  then show ?thesis by (simp add: check_not_nulls_def Let_def)
qed

lemma null_column_detected:
  assumes df: "df = \<lparr>index_len = m, cols = [(''time'', x0), (''pm10'', x1), (''pm2_5'', x2),
        (''uv_index'', x3), (''latitude'', x4), (''longitude'', x5), (''timezone'', x6),
        (''city'', x7), (''date'', x8), (''execution_time'', x9)]\<rparr>"
    and key: "(key = ''latitude'' \<and> x4 = replicate m Null) \<or>
              (key = ''longitude'' \<and> x5 = replicate m Null) \<or>
              (key = ''timezone'' \<and> x6 = replicate m Null)"
    and pos: "0 < m"
    and load: "load_dataframe eng (Some stored) df COLUMN_ORDER = Inr (db1, cnt)"
  shows "\<exists>k>0. check_not_nulls db1 = Inl (ValueError (NullsDetected k))"
proof -
  have proj: "getitems df COLUMN_ORDER = Inr df"
    by (simp add: df getitems_def COLUMN_ORDER_def)
  from load obtain new stored1 where
    h: "traverse bind_row (frame_rows df) = Inr new"
       "insert_or_replace eng stored new = Inr stored1" "db1 = Some stored1"
    unfolding load_dataframe_Inr proj by auto
  have rows: "frame_rows df =
      map (\<lambda>i. [x0 ! i, x1 ! i, x2 ! i, x3 ! i, x4 ! i, x5 ! i, x6 ! i, x7 ! i, x8 ! i, x9 ! i]) [0..<m]"
    by (simp add: df frame_rows_def)
  have nulls: "is_null key r" if "r \<in> set new" for r
  proof -
    from traverse_set [OF h(1) that] obtain i where
      i: "i < m" "bind_row [x0 ! i, x1 ! i, x2 ! i, x3 ! i, x4 ! i, x5 ! i, x6 ! i, x7 ! i, x8 ! i, x9 ! i] = Inr r"
      unfolding rows by auto
    from bind_row_nulls [OF i(2)] key i(1) show ?thesis by auto
  qed
  from h(1) have "length new = m" by (simp add: traverse_length rows)
  with pos have "new \<noteq> []" by auto
  then have "keep_last new \<noteq> []" by (rule keep_last_nonempty)
  then obtain r where r: "r \<in> set (keep_last new)" by (cases "keep_last new") auto
  then have "r \<in> set new" using keep_last_subset by blast
  then have "is_null key r" by (rule nulls)
  moreover have "r \<in> set stored1"
    using r insert_or_replace_Inr [OF h(2)] by simp
  moreover have "key \<in> set critical_cols" using key by (auto simp: critical_cols_def)
  ultimately show ?thesis
    unfolding h(3) using check_not_nulls_detects [of r stored1 key] by blast
qed

lemma enrich_no_latitude:
  "enrich_raw_data test_clock no_latitude_payload COLUMN_ORDER = Inr no_latitude_frame"
  by (simp add: enrich_raw_data_def no_latitude_payload_def test_payload_def payload_getitem_def
      payload_get_def DataFrame_of_def setitem_json_def frame_defs to_datetime_test CITY_def
      COLUMN_ORDER_def no_latitude_frame_def test_frame_def Let_def cong: and_then_weak_cong)

lemma load_no_latitude:
  "load_dataframe eng (Some []) no_latitude_frame COLUMN_ORDER = Inr (Some no_latitude_rows, 2)"
  by (simp add: load_dataframe_def getitems_def no_latitude_frame_def setitem_def test_frame_def
      COLUMN_ORDER_def frame_rows_def bind_defs upt_rec [of _ "numeral n" for n]
      insert_or_replace_def no_latitude_rows_def test_rows_def Let_def test_clock_def
      cong: and_then_weak_cong)

lemma check_no_latitude:
  "check_not_nulls (Some no_latitude_rows) = Inl (ValueError (NullsDetected 2))"
  by (simp add: check_not_nulls_def no_latitude_rows_def test_rows_def critical_cols_def
      is_null_def)

text \<open>
  C9. When a payload with a well-formed \<open>hourly\<close> block (\<open>time\<close>, \<open>pm10\<close>, \<open>pm2_5\<close> and
  \<open>uv_index\<close> among its equal-length sequences, the \<open>time\<close> column parsed by
  \<open>pd.to_datetime\<close>) lacks the top-level key \<open>latitude\<close>, \<open>longitude\<close> or \<open>timezone\<close>,
  \<open>enrich_raw_data\<close> still returns a batch, with that column null in every row; the
  absence shows only later: once rows of the batch are in the table, the null check
  raises.
\<close>

theorem enrich_raw_data_absent_key:
  assumes "payload ''hourly'' = Some (Columns h)"
    and "\<forall>(k, v) \<in> set h. length v = n"
    and "map_of h ''time'' = Some raw" "map_of h ''pm10'' = Some a"
      "map_of h ''pm2_5'' = Some b" "map_of h ''uv_index'' = Some c"
    and "to_datetime raw = Inr T"
    and "payload_get payload ''latitude'' = Scalar lat"
      "payload_get payload ''longitude'' = Scalar lon"
      "payload_get payload ''timezone'' = Scalar tz"
    and "key \<in> {''latitude'', ''longitude'', ''timezone''}"
    and "payload key = None"
  shows "\<exists>df. enrich_raw_data now payload COLUMN_ORDER = Inr df \<and>
           map_of (cols df) key = Some (replicate (index_len df) Null) \<and>
           (\<forall>eng stored db1 cnt.
               0 < index_len df \<and>
               load_dataframe eng (Some stored) df COLUMN_ORDER = Inr (db1, cnt) \<longrightarrow>
               (\<exists>k>0. check_not_nulls db1 = Inl (ValueError (NullsDetected k))))"
proof -
  define df where "df = \<lparr>index_len = card (set T), cols =
             [(''time'', map ((!) T) (first_positions T)),
              (''pm10'', map ((!) a) (first_positions T)),
              (''pm2_5'', map ((!) b) (first_positions T)),
              (''uv_index'', map ((!) c) (first_positions T)),
              (''latitude'', replicate (card (set T)) lat),
              (''longitude'', replicate (card (set T)) lon),
              (''timezone'', replicate (card (set T)) tz),
              (''city'', replicate (card (set T)) (Str CITY)),
              (''date'', map ((!) (dates_of T)) (first_positions T)),
              (''execution_time'', replicate (card (set T)) (Ts now))]\<rparr>"
  have df: "enrich_raw_data now payload COLUMN_ORDER = Inr df" "index_len df = card (set T)"
      "cols df =
             [(''time'', map ((!) T) (first_positions T)),
              (''pm10'', map ((!) a) (first_positions T)),
              (''pm2_5'', map ((!) b) (first_positions T)),
              (''uv_index'', map ((!) c) (first_positions T)),
              (''latitude'', replicate (card (set T)) lat),
              (''longitude'', replicate (card (set T)) lon),
              (''timezone'', replicate (card (set T)) tz),
              (''city'', replicate (card (set T)) (Str CITY)),
              (''date'', map ((!) (dates_of T)) (first_positions T)),
              (''execution_time'', replicate (card (set T)) (Ts now))]"
    using enrich_raw_data_batch [OF assms(1-10), of now] by (simp_all add: df_def)
  from assms(12) have "payload_get payload key = Scalar Null" by (simp add: payload_get_def)
  with assms(8-11) have key: "(key = ''latitude'' \<and> lat = Null) \<or>
      (key = ''longitude'' \<and> lon = Null) \<or> (key = ''timezone'' \<and> tz = Null)"
    by auto
  then have col: "map_of (cols df) key = Some (replicate (index_len df) Null)"
    by (auto simp: df)
  note shape = df_def
  have "\<exists>k>0. check_not_nulls db1 = Inl (ValueError (NullsDetected k))"
    if "0 < index_len df" "load_dataframe eng (Some stored) df COLUMN_ORDER = Inr (db1, cnt)"
    for eng stored db1 cnt
    using shape _ _ that(2)
  proof (rule null_column_detected)
    show "(key = ''latitude'' \<and> replicate (card (set T)) lat = replicate (card (set T)) Null) \<or>
          (key = ''longitude'' \<and> replicate (card (set T)) lon = replicate (card (set T)) Null) \<or>
          (key = ''timezone'' \<and> replicate (card (set T)) tz = replicate (card (set T)) Null)"
      using key by auto
    show "0 < card (set T)" using that(1) df(2) by simp
  qed
  with df(1) col show ?thesis by blast
qed

theorem enrich_raw_data_absent_key_witness:
  "enrich_raw_data test_clock no_latitude_payload COLUMN_ORDER = Inr no_latitude_frame \<and>
   map_of (cols no_latitude_frame) ''latitude'' = Some [Null, Null] \<and>
   load_dataframe LastRowWins (Some []) no_latitude_frame COLUMN_ORDER =
     Inr (Some no_latitude_rows, 2) \<and>
   check_not_nulls (Some no_latitude_rows) = Inl (ValueError (NullsDetected 2))"
proof -
  let ?raw = "[Str ''2025-11-04T00:00'', Str ''2025-11-04T00:00'', Str ''2025-11-04T01:00'']"
  let ?h = "[(''time'', ?raw), (''pm10'', [Num 10, Num 10, Num 12]),
         (''pm2_5'', [Num 5, Num 5, Num 6]), (''uv_index'', [Num 0, Num 0, Num 0.1])]"
  have h1: "no_latitude_payload ''hourly'' = Some (Columns ?h)"
    by (simp add: no_latitude_payload_def test_payload_def)
  have h2: "\<forall>(k, v) \<in> set ?h. length v = 3" by simp
  have h3: "map_of ?h ''time'' = Some ?raw" "map_of ?h ''pm10'' = Some [Num 10, Num 10, Num 12]"
    "map_of ?h ''pm2_5'' = Some [Num 5, Num 5, Num 6]"
    "map_of ?h ''uv_index'' = Some [Num 0, Num 0, Num 0.1]"
    by simp_all
  have h4: "payload_get no_latitude_payload ''latitude'' = Scalar Null"
    "payload_get no_latitude_payload ''longitude'' = Scalar (Num 2.3522)"
    "payload_get no_latitude_payload ''timezone'' = Scalar (Str ''Europe/Paris'')"
    by (simp_all add: payload_get_def no_latitude_payload_def test_payload_def)
  have h5: "''latitude'' \<in> {''latitude'', ''longitude'', ''timezone''}" by simp
  have h6: "no_latitude_payload ''latitude'' = None" by (simp add: no_latitude_payload_def)
  from enrich_raw_data_absent_key [OF h1 h2 h3 to_datetime_test h4 h5 h6, of test_clock]
  obtain df where df: "enrich_raw_data test_clock no_latitude_payload COLUMN_ORDER = Inr df"
    "map_of (cols df) ''latitude'' = Some (replicate (index_len df) Null)"
    by blast
  from df(1) have "df = no_latitude_frame" by (simp add: enrich_no_latitude)
  with df(2) have "map_of (cols no_latitude_frame) ''latitude'' = Some [Null, Null]"
    by (simp add: no_latitude_frame_def setitem_def test_frame_def)
  then show ?thesis
    by (simp add: enrich_no_latitude load_no_latitude check_no_latitude)
qed

section \<open>The column order\<close>

lemma cast_Inr: "cast ty c = Inr v \<Longrightarrow> v = c"
  by (cases "(ty, c)" rule: cast.cases) auto

lemma cast_double:
  "cast DOUBLE c = Inr v \<Longrightarrow> (case as_real (Some v) of None \<Rightarrow> Null | Some x \<Rightarrow> Num x) = c"
  by (cases c) (auto simp: as_real_def)

lemma cast_varchar:
  "cast VARCHAR c = Inr v \<Longrightarrow> (case as_string (Some v) of None \<Rightarrow> Null | Some x \<Rightarrow> Str x) = c"
  by (cases c) (auto simp: as_string_def)

lemma cast_date:
  "cast DATE c = Inr v \<Longrightarrow> (case as_date (Some v) of None \<Rightarrow> Null | Some x \<Rightarrow> Dt x) = c"
  by (cases c) (auto simp: as_date_def)

lemma cast_timestamp:
  "cast TIMESTAMP c = Inr v \<Longrightarrow> (case as_timestamp (Some v) of None \<Rightarrow> Null | Some x \<Rightarrow> Ts x) = c"
  by (cases c) (auto simp: as_timestamp_def)

lemma cast_timestamptz: "cast TIMESTAMPTZ c = Inr (Ts t) \<Longrightarrow> c = Ts t"
  by (cases c) auto

lemma bind_row_values:
  assumes "bind_row [c0, c1, c2, c3, c4, c5, c6, c7, c8, c9] = Inr r"
  shows "column_value ''time'' r = c0" "column_value ''pm10'' r = c1"
    "column_value ''pm2_5'' r = c2" "column_value ''uv_index'' r = c3"
    "column_value ''latitude'' r = c4" "column_value ''longitude'' r = c5"
    "column_value ''timezone'' r = c6" "column_value ''city'' r = c7"
    "column_value ''date'' r = c8" "column_value ''execution_time'' r = c9"
proof -
  from bind_row_Inr [OF assms] obtain v0 v1 v2 v3 v4 v5 v6 v7 v8 v9 t where
    c: "cast TIMESTAMPTZ c0 = Inr v0" "cast DOUBLE c1 = Inr v1" "cast DOUBLE c2 = Inr v2"
       "cast DOUBLE c3 = Inr v3" "cast DOUBLE c4 = Inr v4" "cast DOUBLE c5 = Inr v5"
       "cast VARCHAR c6 = Inr v6" "cast VARCHAR c7 = Inr v7" "cast DATE c8 = Inr v8"
       "cast TIMESTAMP c9 = Inr v9" "v0 = Ts t"
    and r: "r = \<lparr>time = t, pm10 = as_real (Some v1), pm2_5 = as_real (Some v2),
                uv_index = as_real (Some v3), latitude = as_real (Some v4),
                longitude = as_real (Some v5), timezone = as_string (Some v6),
                city = as_string (Some v7), date = as_date (Some v8),
                execution_time = as_timestamp (Some v9)\<rparr>"
    by blast
  from c(1,11) have "c0 = Ts t" by (simp add: cast_timestamptz)
  then show "column_value ''time'' r = c0" by (simp add: column_value_def r)
  show "column_value ''pm10'' r = c1" using cast_double [OF c(2)] by (simp add: column_value_def r)
  show "column_value ''pm2_5'' r = c2" using cast_double [OF c(3)] by (simp add: column_value_def r)
  show "column_value ''uv_index'' r = c3" using cast_double [OF c(4)] by (simp add: column_value_def r)
  show "column_value ''latitude'' r = c4" using cast_double [OF c(5)] by (simp add: column_value_def r)
  show "column_value ''longitude'' r = c5" using cast_double [OF c(6)] by (simp add: column_value_def r)
  show "column_value ''timezone'' r = c6" using cast_varchar [OF c(7)] by (simp add: column_value_def r)
  show "column_value ''city'' r = c7" using cast_varchar [OF c(8)] by (simp add: column_value_def r)
  show "column_value ''date'' r = c8" using cast_date [OF c(9)] by (simp add: column_value_def r)
  show "column_value ''execution_time'' r = c9"
    using cast_timestamp [OF c(10)] by (simp add: column_value_def r)
qed

lemma getitems_canonical:
  assumes "getitems df COLUMN_ORDER = Inr p"
  shows "\<exists>x0 x1 x2 x3 x4 x5 x6 x7 x8 x9.
           map_of (cols df) ''time'' = Some x0 \<and> map_of (cols df) ''pm10'' = Some x1 \<and>
           map_of (cols df) ''pm2_5'' = Some x2 \<and> map_of (cols df) ''uv_index'' = Some x3 \<and>
           map_of (cols df) ''latitude'' = Some x4 \<and> map_of (cols df) ''longitude'' = Some x5 \<and>
           map_of (cols df) ''timezone'' = Some x6 \<and> map_of (cols df) ''city'' = Some x7 \<and>
           map_of (cols df) ''date'' = Some x8 \<and> map_of (cols df) ''execution_time'' = Some x9 \<and>
           p = \<lparr>index_len = index_len df, cols = [(''time'', x0), (''pm10'', x1), (''pm2_5'', x2),
             (''uv_index'', x3), (''latitude'', x4), (''longitude'', x5), (''timezone'', x6),
             (''city'', x7), (''date'', x8), (''execution_time'', x9)]\<rparr>"
proof -
  from assms have none: "filter (\<lambda>c. map_of (cols df) c = None) COLUMN_ORDER = []"
    and p: "p = \<lparr>index_len = index_len df,
        cols = map (\<lambda>c. (c, case map_of (cols df) c of Some v \<Rightarrow> v | None \<Rightarrow> [])) COLUMN_ORDER\<rparr>"
    by (auto simp: getitems_def Let_def split: if_splits)
  from none have "\<forall>c \<in> set COLUMN_ORDER. map_of (cols df) c \<noteq> None"
    by (simp add: filter_empty_conv)
  then obtain x0 x1 x2 x3 x4 x5 x6 x7 x8 x9 where
    "map_of (cols df) ''time'' = Some x0" "map_of (cols df) ''pm10'' = Some x1"
    "map_of (cols df) ''pm2_5'' = Some x2" "map_of (cols df) ''uv_index'' = Some x3"
    "map_of (cols df) ''latitude'' = Some x4" "map_of (cols df) ''longitude'' = Some x5"
    "map_of (cols df) ''timezone'' = Some x6" "map_of (cols df) ''city'' = Some x7"
    "map_of (cols df) ''date'' = Some x8" "map_of (cols df) ''execution_time'' = Some x9"
    unfolding COLUMN_ORDER_def by fastforce
  then show ?thesis using p by (simp add: COLUMN_ORDER_def)
qed

lemma load_shuffled_frame:
  "load_dataframe LastRowWins (ensure_air_quality_table None) shuffled_frame COLUMN_ORDER =
     Inr (Some test_rows, 2)"
proof -
  have "getitems shuffled_frame COLUMN_ORDER = Inr test_frame"
    by (simp add: getitems_def shuffled_frame_def test_frame_def COLUMN_ORDER_def)
  then show ?thesis
    by (simp add: load_dataframe_def ensure_air_quality_table_def bind_test_frame
        insert_or_replace_def test_rows_def Let_def)
qed

text \<open>
  C8. The canonical column order is the same in the three places it appears: the
  column layout of the table \<open>ensure_air_quality_table\<close> creates, the columns of the
  frame \<open>enrich_raw_data\<close> returns, and the projection \<open>load_dataframe\<close> makes before
  its positional insert; all three are time, pm10, pm2\_5, uv\_index, latitude,
  longitude, timezone, city, date, execution\_time. Hence a load into that table
  binds, in every row, each of these columns of the frame to the table column of the
  same name, whatever the order of the frame's own columns, and the table afterwards
  holds the rows so bound.
\<close>

theorem column_order_agrees:
  "map fst air_quality_table_columns = COLUMN_ORDER \<and>
   COLUMN_ORDER = [''time'', ''pm10'', ''pm2_5'', ''uv_index'', ''latitude'', ''longitude'',
      ''timezone'', ''city'', ''date'', ''execution_time''] \<and>
   (\<forall>now payload df. enrich_raw_data now payload COLUMN_ORDER = Inr df \<longrightarrow>
       map fst (cols df) = map fst air_quality_table_columns) \<and>
   (\<forall>eng db df db1 n.
       load_dataframe eng (ensure_air_quality_table db) df COLUMN_ORDER = Inr (db1, n) \<longrightarrow>
       (\<exists>p new. getitems df COLUMN_ORDER = Inr p \<and>
          map fst (cols p) = map fst air_quality_table_columns \<and>
          traverse bind_row (frame_rows p) = Inr new \<and> length new = index_len df \<and>
          (\<forall>i < index_len df. \<forall>c \<in> set COLUMN_ORDER. \<forall>v.
              map_of (cols df) c = Some v \<longrightarrow> column_value c (new ! i) = v ! i) \<and>
          db1 = Some (filter (\<lambda>r. time r \<notin> time ` set new)
                        (case db of None \<Rightarrow> [] | Some rows \<Rightarrow> rows) @ keep_last new)))"
proof (intro conjI allI impI)
  show layout: "map fst air_quality_table_columns = COLUMN_ORDER"
    by (simp add: air_quality_table_columns_def COLUMN_ORDER_def)
  show "COLUMN_ORDER = [''time'', ''pm10'', ''pm2_5'', ''uv_index'', ''latitude'', ''longitude'',
      ''timezone'', ''city'', ''date'', ''execution_time'']"
    by (simp add: COLUMN_ORDER_def)
  show "map fst (cols df) = map fst air_quality_table_columns"
    if "enrich_raw_data now payload COLUMN_ORDER = Inr df" for now payload df
    using enrich_raw_data_columns [OF that] layout by simp
  fix eng db df db1 n
  assume load: "load_dataframe eng (ensure_air_quality_table db) df COLUMN_ORDER = Inr (db1, n)"
  let ?m = "index_len df"
  let ?stored = "case db of None \<Rightarrow> [] | Some rows \<Rightarrow> rows"
  from load obtain p stored new stored1 where
    h: "getitems df COLUMN_ORDER = Inr p" "ensure_air_quality_table db = Some stored"
       "traverse bind_row (frame_rows p) = Inr new"
       "insert_or_replace eng stored new = Inr stored1" "db1 = Some stored1"
    unfolding load_dataframe_Inr by blast
  from h(2) have stored: "stored = ?stored"
    by (simp add: ensure_air_quality_table_def split: option.splits)
  from getitems_canonical [OF h(1)] obtain x0 x1 x2 x3 x4 x5 x6 x7 x8 x9 where
    x: "map_of (cols df) ''time'' = Some x0" "map_of (cols df) ''pm10'' = Some x1"
       "map_of (cols df) ''pm2_5'' = Some x2" "map_of (cols df) ''uv_index'' = Some x3"
       "map_of (cols df) ''latitude'' = Some x4" "map_of (cols df) ''longitude'' = Some x5"
       "map_of (cols df) ''timezone'' = Some x6" "map_of (cols df) ''city'' = Some x7"
       "map_of (cols df) ''date'' = Some x8" "map_of (cols df) ''execution_time'' = Some x9"
    and p: "p = \<lparr>index_len = ?m, cols = [(''time'', x0), (''pm10'', x1), (''pm2_5'', x2),
             (''uv_index'', x3), (''latitude'', x4), (''longitude'', x5), (''timezone'', x6),
             (''city'', x7), (''date'', x8), (''execution_time'', x9)]\<rparr>"
    by blast
  have rows: "frame_rows p =
      map (\<lambda>i. [x0 ! i, x1 ! i, x2 ! i, x3 ! i, x4 ! i, x5 ! i, x6 ! i, x7 ! i, x8 ! i, x9 ! i]) [0..<?m]"
    by (simp add: p frame_rows_def)
  from h(3) have len: "length new = ?m" by (simp add: traverse_length rows)
  have bound: "bind_row [x0 ! i, x1 ! i, x2 ! i, x3 ! i, x4 ! i, x5 ! i, x6 ! i, x7 ! i, x8 ! i, x9 ! i] =
      Inr (new ! i)" if "i < ?m" for i
    using h(3) that unfolding traverse_Inr_iff rows by (simp add: list_all2_conv_all_nth)
  have placed: "\<forall>i < ?m. \<forall>c \<in> set COLUMN_ORDER. \<forall>v.
      map_of (cols df) c = Some v \<longrightarrow> column_value c (new ! i) = v ! i"
  proof (intro allI impI ballI)
    fix i c v
    assume i: "i < ?m" and c: "c \<in> set COLUMN_ORDER" and v: "map_of (cols df) c = Some v"
    note b = bind_row_values [OF bound [OF i]]
    from c have "c = ''time'' \<or> c = ''pm10'' \<or> c = ''pm2_5'' \<or> c = ''uv_index'' \<or>
      c = ''latitude'' \<or> c = ''longitude'' \<or> c = ''timezone'' \<or> c = ''city'' \<or>
      c = ''date'' \<or> c = ''execution_time''"
      by (simp add: COLUMN_ORDER_def)
    then show "column_value c (new ! i) = v ! i"
    proof (elim disjE)
      assume "c = ''time''"
      with v x(1) b(1) show ?thesis by simp
    next
      assume "c = ''pm10''"
      with v x(2) b(2) show ?thesis by simp
    next
      assume "c = ''pm2_5''"
      with v x(3) b(3) show ?thesis by simp
    next
      assume "c = ''uv_index''"
      with v x(4) b(4) show ?thesis by simp
    next
      assume "c = ''latitude''"
      with v x(5) b(5) show ?thesis by simp
    next
      assume "c = ''longitude''"
      with v x(6) b(6) show ?thesis by simp
    next
      assume "c = ''timezone''"
      with v x(7) b(7) show ?thesis by simp
    next
      assume "c = ''city''"
      with v x(8) b(8) show ?thesis by simp
    next
      assume "c = ''date''"
      with v x(9) b(9) show ?thesis by simp
    next
      assume "c = ''execution_time''"
      with v x(10) b(10) show ?thesis by simp
    qed
  qed
  have cols: "map fst (cols p) = map fst air_quality_table_columns"
    using getitems_columns [OF h(1)] layout by simp
  have db1: "db1 = Some (filter (\<lambda>r. time r \<notin> time ` set new) ?stored @ keep_last new)"
    using insert_or_replace_Inr [OF h(4)] h(5) stored by simp
  from h(1) cols h(3) len placed db1
  show "\<exists>p new. getitems df COLUMN_ORDER = Inr p \<and>
          map fst (cols p) = map fst air_quality_table_columns \<and>
          traverse bind_row (frame_rows p) = Inr new \<and> length new = index_len df \<and>
          (\<forall>i < index_len df. \<forall>c \<in> set COLUMN_ORDER. \<forall>v.
              map_of (cols df) c = Some v \<longrightarrow> column_value c (new ! i) = v ! i) \<and>
          db1 = Some (filter (\<lambda>r. time r \<notin> time ` set new) ?stored @ keep_last new)"
    by blast
qed

theorem column_order_agrees_witness:
  "enrich_raw_data test_clock test_payload COLUMN_ORDER = Inr test_frame \<and>
   map fst (cols test_frame) = map fst air_quality_table_columns \<and>
   map fst (cols shuffled_frame) = ''ozone'' # rev COLUMN_ORDER \<and>
   load_dataframe LastRowWins (ensure_air_quality_table None) shuffled_frame COLUMN_ORDER =
     Inr (Some test_rows, 2) \<and>
   column_value ''pm10'' (test_rows ! 1) = Num 12 \<and>
   column_value ''uv_index'' (test_rows ! 1) = Num 0.1 \<and>
   column_value ''city'' (test_rows ! 0) = Str ''Paris''"
proof -
  note all = column_order_agrees
  from all enrich_test_payload
  have a: "map fst (cols test_frame) = map fst air_quality_table_columns" by blast
  from all load_shuffled_frame obtain p new where
    pn: "getitems shuffled_frame COLUMN_ORDER = Inr p" "traverse bind_row (frame_rows p) = Inr new"
      "\<forall>i < index_len shuffled_frame. \<forall>c \<in> set COLUMN_ORDER. \<forall>v.
          map_of (cols shuffled_frame) c = Some v \<longrightarrow> column_value c (new ! i) = v ! i"
    by blast
  have "getitems shuffled_frame COLUMN_ORDER = Inr test_frame"
    by (simp add: getitems_def shuffled_frame_def test_frame_def COLUMN_ORDER_def)
  with pn(1,2) have new: "new = test_rows" by (simp add: bind_test_frame)
  have m: "index_len shuffled_frame = 2" by (simp add: shuffled_frame_def)
  have mem: "''pm10'' \<in> set COLUMN_ORDER" "''uv_index'' \<in> set COLUMN_ORDER"
    "''city'' \<in> set COLUMN_ORDER"
    by (simp_all add: COLUMN_ORDER_def)
  have v: "map_of (cols shuffled_frame) ''pm10'' = Some [Num 10, Num 12]"
    "map_of (cols shuffled_frame) ''uv_index'' = Some [Num 0, Num 0.1]"
    "map_of (cols shuffled_frame) ''city'' = Some [Str ''Paris'', Str ''Paris'']"
    by (simp_all add: shuffled_frame_def test_frame_def)
  from pn(3) [unfolded m new, rule_format, of 1, OF _ mem(1) v(1)]
  have b: "column_value ''pm10'' (test_rows ! 1) = Num 12" by simp
  from pn(3) [unfolded m new, rule_format, of 1, OF _ mem(2) v(2)]
  have c: "column_value ''uv_index'' (test_rows ! 1) = Num 0.1" by simp
  from pn(3) [unfolded m new, rule_format, of 0, OF _ mem(3) v(3)]
  have d: "column_value ''city'' (test_rows ! 0) = Str ''Paris''" by simp
  have e: "map fst (cols shuffled_frame) = ''ozone'' # rev COLUMN_ORDER"
    by (simp add: shuffled_frame_def test_frame_def COLUMN_ORDER_def)
  from a b c d e show ?thesis by (simp add: enrich_test_payload load_shuffled_frame)
qed

section \<open>The records between the enrich and the load task\<close>

lemma map_of_nth_column:
  "map_of (map (\<lambda>(c, v). (c, v ! i)) cs) k = map_option (\<lambda>v. v ! i) (map_of cs k)"
  by (induction cs) auto

lemma from_records_to_dict_records:
  assumes names: "distinct (map fst (cols f))"
    and lens: "\<forall>(c, v) \<in> set (cols f). length v = index_len f"
    and pos: "0 < index_len f"
  shows "from_records (to_dict_records f) = f"
proof -
  let ?m = "index_len f" and ?cs = "cols f"
  let ?records = "to_dict_records f"
  let ?g = "\<lambda>c. map (\<lambda>r. case map_of r c of None \<Rightarrow> Null | Some v \<Rightarrow> v) ?records"
  have fst_eq: "map fst (map (\<lambda>(c, v). (c, v ! i)) ?cs) = map fst ?cs" for i
    by (simp add: comp_def case_prod_unfold)
  have "map (map fst) ?records = map (\<lambda>i. map fst ?cs) [0..<?m]"
    by (simp add: to_dict_records_def case_prod_unfold)
  then have "map (map fst) ?records = replicate ?m (map fst ?cs)"
    by (simp add: map_replicate_const)
  moreover obtain k where k: "?m = Suc k" using pos by (cases ?m) auto
  ultimately have keys: "concat (map (map fst) ?records) =
      map fst ?cs @ concat (replicate k (map fst ?cs))"
    by simp
  have "set (concat (replicate k (map fst ?cs))) \<subseteq> set (map fst ?cs)"
    by (auto simp: set_replicate_conv_if split: if_splits)
  with names have columns: "boolean_mask (map Not (duplicated (concat (map (map fst) ?records))))
      (concat (map (map fst) ?records)) = map fst ?cs"
    unfolding keys by (rule first_of_repeated)
  have col: "?g c = v" if "(c, v) \<in> set ?cs" for c v
  proof -
    from that names have "map_of ?cs c = Some v" by simp
    moreover from that lens have "length v = ?m" by auto
    ultimately show ?thesis
      by (simp add: to_dict_records_def comp_def map_of_nth_column map_nth)
         (metis map_nth)
  qed
  have "map (\<lambda>c. (c, ?g c)) (map fst ?cs) = map (\<lambda>(c, v). (c, ?g c)) ?cs"
    by (simp add: comp_def case_prod_unfold)
  also have "\<dots> = map (\<lambda>(c, v). (c, v)) ?cs"
    by (rule map_cong) (auto simp: col)
  also have "\<dots> = ?cs" by simp
  finally have "map (\<lambda>c. (c, ?g c)) (map fst ?cs) = ?cs" .
  then show ?thesis
    by (simp add: from_records_def Let_def columns to_dict_records_def [symmetric])
       (simp add: to_dict_records_def)
qed

lemma enrich_empty_payload:
  "enrich_raw_data test_clock empty_payload COLUMN_ORDER =
     Inr \<lparr>index_len = 0, cols = map (\<lambda>c. (c, [])) COLUMN_ORDER\<rparr>"
  by (simp add: enrich_raw_data_def empty_payload_def payload_getitem_def
      payload_get_def DataFrame_of_def setitem_json_def frame_defs to_datetime_def CITY_def
      COLUMN_ORDER_def Let_def cong: and_then_weak_cong)

lemma records_of_empty_frame:
  "safe_records \<lparr>index_len = 0, cols = map (\<lambda>c. (c, [])) COLUMN_ORDER\<rparr> = Inr []"
  by (simp add: safe_records_def COLUMN_ORDER_def getitem_def dt_strftime_def setitem_def
      to_dict_records_def)

lemma load_frame_no_records: "load_frame [] = Inl (KeyError [''time''])"
  by (simp add: load_frame_def from_records_def duplicated_def boolean_mask_def getitem_def)

text \<open>
  A batch with at least one row (a frame of the canonical columns whose \<open>time\<close> and
  \<open>execution_time\<close> cells are timestamps or \<open>NaT\<close> and whose \<open>date\<close> cells are dates or
  \<open>NaT\<close>, each within the bounds of a pandas timestamp once cut to whole seconds)
  comes back from the serialisation of the \<open>enrich\<close> task and the parsing of the
  \<open>load\<close> task with \<open>time\<close> and \<open>execution_time\<close> cut to whole seconds and every
  other column, \<open>date\<close> included, unchanged; when no timestamp has a sub-second part
  the batch comes back exactly.
\<close>

lemma record_round_trip:
  assumes df: "df = \<lparr>index_len = m, cols = [(''time'', x0), (''pm10'', x1), (''pm2_5'', x2),
        (''uv_index'', x3), (''latitude'', x4), (''longitude'', x5), (''timezone'', x6),
        (''city'', x7), (''date'', x8), (''execution_time'', x9)]\<rparr>"
    and pos: "0 < m"
    and lens: "\<forall>(c, v) \<in> set (cols df). length v = m"
    and stamps: "\<forall>c \<in> set x0 \<union> set x9. c = Null \<or>
        (\<exists>t. c = Ts t \<and> valid_timestamp t \<and> in_bounds (whole_seconds t))"
    and dates: "\<forall>c \<in> set x8. c = Null \<or>
        (\<exists>d. c = Dt d \<and> valid_date d \<and> in_bounds (Timestamp d 0 0 0 0))"
  shows "\<exists>records. safe_records df = Inr records \<and>
           load_frame records =
             Inr \<lparr>index_len = m, cols = [(''time'', map whole_seconds_cell x0), (''pm10'', x1),
                (''pm2_5'', x2), (''uv_index'', x3), (''latitude'', x4), (''longitude'', x5),
                (''timezone'', x6), (''city'', x7), (''date'', x8),
                (''execution_time'', map whole_seconds_cell x9)]\<rparr> \<and>
           ((\<forall>t. Ts t \<in> set x0 \<union> set x9 \<longrightarrow> ts_nano t = 0) \<longrightarrow> load_frame records = Inr df)"
proof -
  let ?safe = "\<lparr>index_len = m, cols = [(''time'', map strftime_cell x0), (''pm10'', x1),
        (''pm2_5'', x2), (''uv_index'', x3), (''latitude'', x4), (''longitude'', x5),
        (''timezone'', x6), (''city'', x7), (''date'', map date_str_cell x8),
        (''execution_time'', map strftime_cell x9)]\<rparr>"
  let ?out = "\<lparr>index_len = m, cols = [(''time'', map whole_seconds_cell x0), (''pm10'', x1),
                (''pm2_5'', x2), (''uv_index'', x3), (''latitude'', x4), (''longitude'', x5),
                (''timezone'', x6), (''city'', x7), (''date'', x8),
                (''execution_time'', map whole_seconds_cell x9)]\<rparr>"
  have t_ok: "\<forall>c \<in> set x0. c = Null \<or>
        (\<exists>t. c = Ts t \<and> valid_timestamp t \<and> in_bounds (whole_seconds t))"
    and e_ok: "\<forall>c \<in> set x9. c = Null \<or>
        (\<exists>t. c = Ts t \<and> valid_timestamp t \<and> in_bounds (whole_seconds t))"
    using stamps by auto
  have t_kind: "\<forall>c \<in> set x0. c = Null \<or> (\<exists>t. c = Ts t)"
    and e_kind: "\<forall>c \<in> set x9. c = Null \<or> (\<exists>t. c = Ts t)"
    and d_kind: "\<forall>c \<in> set x8. c = Null \<or> (\<exists>d. c = Dt d)"
    using t_ok e_ok dates by blast+
  have safe: "safe_records df = Inr (to_dict_records ?safe)"
    by (simp add: safe_records_def df getitem_def setitem_def dt_strftime_column [OF t_kind]
        dt_strftime_column [OF e_kind] date_astype_str_column [OF d_kind])
  have rebuilt: "from_records (to_dict_records ?safe) = ?safe"
    using pos lens by (intro from_records_to_dict_records) (auto simp: df)
  have load: "load_frame (to_dict_records ?safe) = Inr ?out"
    using to_datetime_date_column [OF dates]
    by (simp add: load_frame_def rebuilt getitem_def setitem_def
        to_datetime_strftime_column [OF t_ok] to_datetime_strftime_column [OF e_ok]
        and_then_Inr)
  have same: "?out = df" if "\<forall>t. Ts t \<in> set x0 \<union> set x9 \<longrightarrow> ts_nano t = 0"
    using that by (simp add: df whole_seconds_cell_id)
  from safe load same show ?thesis by auto
qed

text \<open>The sample batch: the quarter of a second of the clock is cut.\<close>

lemma record_round_trip_test:
  "and_then (safe_records test_frame) load_frame =
     Inr (setitem test_frame ''execution_time''
            [Ts (Timestamp (Date 2025 11 5) 6 30 0 0), Ts (Timestamp (Date 2025 11 5) 6 30 0 0)])"
proof -
  have shape: "test_frame = \<lparr>index_len = 2, cols =
        [(''time'', [Ts (Timestamp (Date 2025 11 4) 0 0 0 0), Ts (Timestamp (Date 2025 11 4) 1 0 0 0)]),
         (''pm10'', [Num 10, Num 12]),
         (''pm2_5'', [Num 5, Num 6]),
         (''uv_index'', [Num 0, Num 0.1]),
         (''latitude'', [Num 48.8566, Num 48.8566]),
         (''longitude'', [Num 2.3522, Num 2.3522]),
         (''timezone'', [Str ''Europe/Paris'', Str ''Europe/Paris'']),
         (''city'', [Str ''Paris'', Str ''Paris'']),
         (''date'', [Dt (Date 2025 11 4), Dt (Date 2025 11 4)]),
         (''execution_time'', [Ts test_clock, Ts test_clock])]\<rparr>"
    by (simp add: test_frame_def)
  have pos: "0 < (2::nat)" by simp
  have lens: "\<forall>(c, v) \<in> set (cols test_frame). length v = 2" by (simp add: test_frame_def)
  have stamps: "\<forall>c \<in> set [Ts (Timestamp (Date 2025 11 4) 0 0 0 0), Ts (Timestamp (Date 2025 11 4) 1 0 0 0)] \<union>
        set [Ts test_clock, Ts test_clock]. c = Null \<or>
        (\<exists>t. c = Ts t \<and> valid_timestamp t \<and> in_bounds (whole_seconds t))"
    by (simp add: valid_timestamp_def valid_date_def days_in_month_def test_clock_def
        whole_seconds_def bounds_defs)
  have dates: "\<forall>c \<in> set [Dt (Date 2025 11 4), Dt (Date 2025 11 4)].
        c = Null \<or> (\<exists>d. c = Dt d \<and> valid_date d \<and> in_bounds (Timestamp d 0 0 0 0))"
    by (simp add: valid_date_def days_in_month_def bounds_defs)
  from record_round_trip [OF shape pos lens stamps dates]
  show ?thesis
    by (auto simp: whole_seconds_cell_def whole_seconds_def test_clock_def setitem_def
        test_frame_def)
qed

text \<open>
  C10. The round trip does not hold for every enriched batch: the batch without rows
  (a day for which the API returns empty sequences) is accepted by the \<open>enrich\<close> task,
  whose records are then the empty list; from it the \<open>load\<close> task builds a frame
  without columns, and its first line that reads \<open>time\<close> raises \<open>KeyError\<close> instead of
  giving back the empty batch.
\<close>

theorem record_round_trip_no_rows:
  "enrich_raw_data test_clock empty_payload COLUMN_ORDER =
     Inr \<lparr>index_len = 0, cols = map (\<lambda>c. (c, [])) COLUMN_ORDER\<rparr> \<and>
   enrich test_clock empty_payload = Inr [] \<and>
   load_frame [] = Inl (KeyError [''time'']) \<and>
   load LastRowWins (Some []) [] = Inl (KeyError [''time''])"
  by (simp add: enrich_def load_def enrich_empty_payload records_of_empty_frame
      load_frame_no_records)

section \<open>Properties of the data quality tasks\<close>

lemma sql_or_true: "sql_or a b = Some True \<longleftrightarrow> a = Some True \<or> b = Some True"
  by (cases "(a, b)" rule: sql_or.cases) auto

lemma outside_iff:
  "sql_or (sql_lt x lo) (sql_gt x hi) = Some True \<longleftrightarrow> (\<exists>v. x = Some v \<and> (v < lo \<or> hi < v))"
  by (cases x) (auto simp: sql_or_true sql_lt_def sql_gt_def)

text \<open>
  C4. The range check counts, per metric, the rows whose \<open>pm10\<close> lies outside
  [0, 500], whose \<open>pm2_5\<close> lies outside [0, 500] and whose \<open>uv_index\<close> lies outside
  [0, 15], the bounds themselves being inside; it returns normally when the three
  counts are zero and otherwise raises, listing each metric with a nonzero count.
\<close>

theorem check_ranges_counts:
  "check_ranges (Some rows) =
     (let n1 = length (filter (\<lambda>r. \<exists>v. pm10 r = Some v \<and> (v < 0 \<or> 500 < v)) rows);
          n2 = length (filter (\<lambda>r. \<exists>v. pm2_5 r = Some v \<and> (v < 0 \<or> 500 < v)) rows);
          n3 = length (filter (\<lambda>r. \<exists>v. uv_index r = Some v \<and> (v < 0 \<or> 15 < v)) rows)
      in if n1 = 0 \<and> n2 = 0 \<and> n3 = 0 then Inr ()
         else Inl (ValueError (RangeCheckFailures
                (filter (\<lambda>(k, v). 0 < v) [(''pm10'', n1), (''pm2_5'', n2), (''uv_index'', n3)]))))"
  by (simp add: check_ranges_def range_queries_def count_where_def outside_iff Let_def)

theorem check_ranges_counts_witness:
  "check_ranges (Some [sample_row 0 15]) = Inr () \<and>
   check_ranges (Some [sample_row 0 15, sample_row 1 16]) =
     Inl (ValueError (RangeCheckFailures [(''uv_index'', 1)]))"
  using check_ranges_counts [of "[sample_row 0 15]"]
    check_ranges_counts [of "[sample_row 0 15, sample_row 1 16]"]
  by (simp add: sample_row_def)

text \<open>
  C5. The null check raises exactly when the number of stored rows in which one of
  \<open>pm10\<close>, \<open>pm2_5\<close>, \<open>uv_index\<close>, \<open>latitude\<close>, \<open>longitude\<close>, \<open>timezone\<close>, \<open>city\<close>
  is null is greater than zero, and returns normally otherwise.
\<close>

theorem check_not_nulls_count:
  "check_not_nulls (Some rows) =
     (let n = length (filter (\<lambda>r. pm10 r = None \<or> pm2_5 r = None \<or> uv_index r = None \<or>
                 latitude r = None \<or> longitude r = None \<or> timezone r = None \<or> city r = None) rows)
      in if 0 < n then Inl (ValueError (NullsDetected n)) else Inr ())"
  by (simp add: check_not_nulls_def critical_cols_def is_null_def Let_def)

theorem check_not_nulls_count_witness:
  "check_not_nulls (Some [sample_row 0 1, (sample_row 1 1)\<lparr>pm10 := None\<rparr>]) =
     Inl (ValueError (NullsDetected 1)) \<and>
   check_not_nulls (Some [sample_row 0 1]) = Inr ()"
  using check_not_nulls_count [of "[sample_row 0 1, (sample_row 1 1)\<lparr>pm10 := None\<rparr>]"]
    check_not_nulls_count [of "[sample_row 0 1]"]
  by (simp add: sample_row_def)

lemma distinct_times_card:
  "length (remdups (map time (filter P rows))) = card (time ` {r \<in> set rows. P r})"
proof -
  have "set (map time (filter P rows)) = time ` {r \<in> set rows. P r}" by auto
  then show ?thesis by (metis card_set)
qed

lemma completeness_groups_set:
  "set (completeness_groups rows) =
     {(d, n, m). d \<in> date ` set rows \<and> n = length (filter (\<lambda>r. date r = d) rows) \<and>
                 m = card (time ` {r \<in> set rows. date r = d})}"
  by (auto simp: completeness_groups_def distinct_times_card)

lemma completeness_groups_distinct: "distinct (completeness_groups rows)"
  by (simp add: completeness_groups_def distinct_map inj_on_def)

lemma check_completeness_cases:
  "check_completeness (Some rows) =
     (let fs = filter (\<lambda>(d, n, m). n \<noteq> 24 \<or> m \<noteq> 24) (completeness_groups rows)
      in if fs = [] then Inr () else Inl (ValueError (CompletenessFailure fs)))"
  by (simp add: check_completeness_def Let_def)

text \<open>
  C3. The completeness check returns normally exactly when every date present in
  the table has 24 rows and 24 distinct \<open>time\<close> values; when it raises, the error lists,
  once each, the tuples (date, row count, distinct time count) of exactly the offending
  dates; and a table (whose primary key \<open>time\<close> is unique) in which every date has
  exactly 24 distinct timestamps passes.
\<close>

theorem check_completeness_iff:
  "(check_completeness (Some rows) = Inr () \<longleftrightarrow>
      (\<forall>d \<in> date ` set rows.
          length (filter (\<lambda>r. date r = d) rows) = 24 \<and>
          card (time ` {r \<in> set rows. date r = d}) = 24)) \<and>
   (\<forall>e. check_completeness (Some rows) = Inl e \<longrightarrow>
      (\<exists>fs. e = ValueError (CompletenessFailure fs) \<and> distinct fs \<and>
         set fs = {(d, n, m). d \<in> date ` set rows \<and>
                      n = length (filter (\<lambda>r. date r = d) rows) \<and>
                      m = card (time ` {r \<in> set rows. date r = d}) \<and>
                      (n \<noteq> 24 \<or> m \<noteq> 24)})) \<and>
   (distinct (map time rows) \<and>
      (\<forall>d \<in> date ` set rows. card (time ` {r \<in> set rows. date r = d}) = 24) \<longrightarrow>
      check_completeness (Some rows) = Inr ())"
proof (intro conjI allI impI)
  let ?fs = "filter (\<lambda>(d, n, m). n \<noteq> 24 \<or> m \<noteq> 24) (completeness_groups rows)"
  have set_fs: "set ?fs = {(d, n, m). d \<in> date ` set rows \<and>
                      n = length (filter (\<lambda>r. date r = d) rows) \<and>
                      m = card (time ` {r \<in> set rows. date r = d}) \<and>
                      (n \<noteq> 24 \<or> m \<noteq> 24)}"
    by (auto simp: completeness_groups_set)
  have "?fs = [] \<longleftrightarrow> set ?fs = {}" by (rule set_empty [symmetric])
  also have "\<dots> \<longleftrightarrow> (\<forall>d \<in> date ` set rows.
          length (filter (\<lambda>r. date r = d) rows) = 24 \<and>
          card (time ` {r \<in> set rows. date r = d}) = 24)"
    unfolding set_fs by auto
  finally have empty_iff: "?fs = [] \<longleftrightarrow> (\<forall>d \<in> date ` set rows.
          length (filter (\<lambda>r. date r = d) rows) = 24 \<and>
          card (time ` {r \<in> set rows. date r = d}) = 24)" .
  show pass: "check_completeness (Some rows) = Inr () \<longleftrightarrow>
      (\<forall>d \<in> date ` set rows.
          length (filter (\<lambda>r. date r = d) rows) = 24 \<and>
          card (time ` {r \<in> set rows. date r = d}) = 24)"
    using empty_iff by (simp add: check_completeness_cases Let_def)
  {
    fix e assume "check_completeness (Some rows) = Inl e"
    then have "e = ValueError (CompletenessFailure ?fs)"
      by (simp add: check_completeness_cases Let_def split: if_splits)
    moreover have "distinct ?fs" by (simp add: completeness_groups_distinct)
    ultimately show "\<exists>fs. e = ValueError (CompletenessFailure fs) \<and> distinct fs \<and>
         set fs = {(d, n, m). d \<in> date ` set rows \<and>
                      n = length (filter (\<lambda>r. date r = d) rows) \<and>
                      m = card (time ` {r \<in> set rows. date r = d}) \<and>
                      (n \<noteq> 24 \<or> m \<noteq> 24)}"
      using set_fs by blast
  }
  {
    assume h: "distinct (map time rows) \<and>
      (\<forall>d \<in> date ` set rows. card (time ` {r \<in> set rows. date r = d}) = 24)"
    have "length (filter (\<lambda>r. date r = d) rows) = card (time ` {r \<in> set rows. date r = d})" for d
    proof -
      have "distinct (map time (filter (\<lambda>r. date r = d) rows))"
        using h by (simp add: distinct_map_filter)
      then have "length (remdups (map time (filter (\<lambda>r. date r = d) rows))) =
                 length (filter (\<lambda>r. date r = d) rows)"
        by (simp add: distinct_remdups_id)
      then show ?thesis by (simp add: distinct_times_card)
    qed
    with h show "check_completeness (Some rows) = Inr ()"
      unfolding pass by simp
  }
qed

lemma hours_distinct: "distinct (map time (hours 24))"
  by (simp add: hours_def distinct_map inj_on_def sample_row_def comp_def)

lemma hours_card: "card (time ` {r \<in> set (hours 24). date r = Some (Date 2025 11 4)}) = 24"
proof -
  have "{r \<in> set (hours 24). date r = Some (Date 2025 11 4)} = (\<lambda>h. sample_row h 1) ` {0..<24}"
    by (auto simp: hours_def sample_row_def)
  then show ?thesis
    by (simp add: image_image card_image inj_on_def sample_row_def)
qed

lemma hours_dates: "date ` set (hours 24) \<subseteq> {Some (Date 2025 11 4)}"
  by (auto simp: hours_def sample_row_def)

theorem check_completeness_iff_witness:
  "distinct (map time (hours 24)) \<and>
   card (time ` {r \<in> set (hours 24). date r = Some (Date 2025 11 4)}) = 24 \<and>
   check_completeness (Some (hours 24)) = Inr () \<and>
   check_completeness (Some (hours 23)) =
     Inl (ValueError (CompletenessFailure [(Some (Date 2025 11 4), 23, 23)]))"
proof -
  have a: "distinct (map time (hours 24))" by (rule hours_distinct)
  have b: "card (time ` {r \<in> set (hours 24). date r = Some (Date 2025 11 4)}) = 24"
    by (rule hours_card)
  have c: "\<forall>d \<in> date ` set (hours 24). card (time ` {r \<in> set (hours 24). date r = d}) = 24"
    using hours_dates b by auto
  have "check_completeness (Some (hours 24)) = Inr ()"
    using check_completeness_iff [of "hours 24"] a c by blast
  moreover have "check_completeness (Some (hours 23)) =
     Inl (ValueError (CompletenessFailure [(Some (Date 2025 11 4), 23, 23)]))"
    by (simp add: hours_def check_completeness_def completeness_groups_def sample_row_def
        upt_rec [of _ "numeral n" for n] Let_def)
  ultimately show ?thesis using a b by simp
qed

end
